theory Spec2Isabelle
  imports Complex_Main
begin

section \<open>Python text primitives used by the sources\<close>

text \<open>
  A Python \<open>str\<close> is modelled as a \<open>string\<close> whose characters are the code points
  below 256. On that range the decimal digits of the regular-expression class
  \<^verbatim>\<open>\d\<close> are exactly \<open>0\<close> to \<open>9\<close>, \<^verbatim>\<open>str.strip\<close> removes the twelve
  white-space code points listed in \<open>py_space\<close>, and \<^verbatim>\<open>str.lower\<close> maps \<open>A\<close>-\<open>Z\<close> and
  the Latin-1 capitals to their small forms. \<^verbatim>\<open>str.upper\<close> is the inverse mapping; the
  three characters whose upper-case form leaves the range (0xB5, 0xDF, 0xFF) are left
  unchanged, which no comparison with an ASCII word can observe.
\<close>

definition is_digit :: "char \<Rightarrow> bool" where
  "is_digit c = (c \<in> set ''0123456789'')"

definition digit_val :: "char \<Rightarrow> nat" where
  "digit_val c = of_char c - 48"

definition digit_char :: "nat \<Rightarrow> char" where
  "digit_char n = ''0123456789'' ! n"

text \<open>\<^verbatim>\<open>int(s)\<close> on a string of decimal digits.\<close>

definition nat_of_digits :: "string \<Rightarrow> nat" where
  "nat_of_digits s = foldl (\<lambda>acc c. 10 * acc + digit_val c) 0 s"

text \<open>\<^verbatim>\<open>str(n)\<close> for a natural number.\<close>

fun digits_of :: "nat \<Rightarrow> string" where
  "digits_of n = (if n < 10 then [digit_char n]
                  else digits_of (n div 10) @ [digit_char (n mod 10)])"

declare digits_of.simps [simp del]

definition zfill :: "nat \<Rightarrow> string \<Rightarrow> string" where
  "zfill w s = replicate (w - length s) (CHR ''0'') @ s"

text \<open>The format specification \<^verbatim>\<open>{n:02}\<close>: the sign counts towards the width.\<close>

definition format_02 :: "int \<Rightarrow> string" where
  "format_02 n = (if n < 0 then CHR ''-'' # digits_of (nat (- n))
                  else zfill 2 (digits_of (nat n)))"

definition upper_letters :: string where
  "upper_letters = ''ABCDEFGHIJKLMNOPQRSTUVWXYZ'' @
     [CHR 0xC0, CHR 0xC1, CHR 0xC2, CHR 0xC3, CHR 0xC4, CHR 0xC5, CHR 0xC6, CHR 0xC7,
      CHR 0xC8, CHR 0xC9, CHR 0xCA, CHR 0xCB, CHR 0xCC, CHR 0xCD, CHR 0xCE, CHR 0xCF,
      CHR 0xD0, CHR 0xD1, CHR 0xD2, CHR 0xD3, CHR 0xD4, CHR 0xD5, CHR 0xD6,
      CHR 0xD8, CHR 0xD9, CHR 0xDA, CHR 0xDB, CHR 0xDC, CHR 0xDD, CHR 0xDE]"

definition lower_letters :: string where
  "lower_letters = ''abcdefghijklmnopqrstuvwxyz'' @
     [CHR 0xE0, CHR 0xE1, CHR 0xE2, CHR 0xE3, CHR 0xE4, CHR 0xE5, CHR 0xE6, CHR 0xE7,
      CHR 0xE8, CHR 0xE9, CHR 0xEA, CHR 0xEB, CHR 0xEC, CHR 0xED, CHR 0xEE, CHR 0xEF,
      CHR 0xF0, CHR 0xF1, CHR 0xF2, CHR 0xF3, CHR 0xF4, CHR 0xF5, CHR 0xF6,
      CHR 0xF8, CHR 0xF9, CHR 0xFA, CHR 0xFB, CHR 0xFC, CHR 0xFD, CHR 0xFE]"

definition py_upper :: "string \<Rightarrow> string" where
  "py_upper s = map (\<lambda>c. case map_of (zip lower_letters upper_letters) c of
                            Some d \<Rightarrow> d | None \<Rightarrow> c) s"

definition py_lower :: "string \<Rightarrow> string" where
  "py_lower s = map (\<lambda>c. case map_of (zip upper_letters lower_letters) c of
                            Some d \<Rightarrow> d | None \<Rightarrow> c) s"

definition py_space :: "char \<Rightarrow> bool" where
  "py_space c = (c \<in> set [CHR 0x09, CHR 0x0A, CHR 0x0B, CHR 0x0C, CHR 0x0D,
                            CHR 0x1C, CHR 0x1D, CHR 0x1E, CHR 0x1F, CHR 0x20,
                            CHR 0x85, CHR 0xA0])"

definition py_strip :: "string \<Rightarrow> string" where
  "py_strip s = rev (dropWhile py_space (rev (dropWhile py_space s)))"

text \<open>
  \<^verbatim>\<open>int(s)\<close> on an arbitrary string: surrounding white space (for \<^verbatim>\<open>int\<close> the
  control characters 0x1C-0x1F do not count), one optional sign, then decimal digits
  with single underscores between them. \<open>None\<close> is the \<^verbatim>\<open>ValueError\<close>.
\<close>

definition int_space :: "char \<Rightarrow> bool" where
  "int_space c = (c \<in> set [CHR 0x09, CHR 0x0A, CHR 0x0B, CHR 0x0C, CHR 0x0D, CHR 0x20,
                             CHR 0x85, CHR 0xA0])"

fun int_digits :: "bool \<Rightarrow> nat \<Rightarrow> string \<Rightarrow> nat option" where
  "int_digits prev acc [] = (if prev then Some acc else None)"
| "int_digits prev acc (c # cs) =
     (if is_digit c then int_digits True (10 * acc + digit_val c) cs
      else if c = CHR ''_'' \<and> prev then int_digits False acc cs
      else None)"

definition py_int :: "string \<Rightarrow> int option" where
  "py_int s =
     (case rev (dropWhile int_space (rev (dropWhile int_space s))) of
        [] \<Rightarrow> None
      | c # cs \<Rightarrow>
          if c = CHR ''-'' then map_option (\<lambda>n. - int n) (int_digits False 0 cs)
          else if c = CHR ''+'' then map_option int (int_digits False 0 cs)
          else map_option int (int_digits False 0 (c # cs)))"

text \<open>\<^verbatim>\<open>s.split(sep)\<close> for a one-character separator.\<close>

fun split_on :: "char \<Rightarrow> string \<Rightarrow> string list" where
  "split_on sep [] = [[]]"
| "split_on sep (c # cs) =
     (if c = sep then [] # split_on sep cs
      else (case split_on sep cs of
              [] \<Rightarrow> [[c]]
            | w # ws \<Rightarrow> (c # w) # ws))"

section \<open>Exceptions and JSON values\<close>

datatype error =
    PrayerApiError string
  | ValueError
  | OverflowError
  | TypeError
  | KeyError
  | AttributeError
  | UnicodeDecodeError
  | UnicodeEncodeError
  | RecursionError
  | PermissionError
  | OSError

text \<open>
  A \<^verbatim>\<open>float\<close>: a finite value other than negative zero is the rational number it
  denotes (\<open>Finite 0\<close> is positive zero); negative zero, the two infinities and
  not-a-number are values of their own.
\<close>

datatype pyfloat =
    Finite rat
  | NegZero
  | PosInf
  | NegInf
  | NaN

text \<open>
  What \<^verbatim>\<open>json.loads\<close> returns. A \<^verbatim>\<open>dict\<close> is an association list in insertion
  order, read with \<open>map_of\<close>.
\<close>

datatype json =
    JNull
  | JBool bool
  | JInt int
  | JFloat pyfloat
  | JStr string
  | JArr "json list"
  | JObj "(string \<times> json) list"

text \<open>Truth value of a JSON value in a Python condition.\<close>

fun py_truthy :: "json \<Rightarrow> bool" where
  "py_truthy JNull = False"
| "py_truthy (JBool b) = b"
| "py_truthy (JInt n) = (n \<noteq> 0)"
| "py_truthy (JFloat x) = (x \<noteq> Finite 0 \<and> x \<noteq> NegZero)"
| "py_truthy (JStr s) = (s \<noteq> [])"
| "py_truthy (JArr xs) = (xs \<noteq> [])"
| "py_truthy (JObj kvs) = (kvs \<noteq> [])"

section \<open>models.py\<close>

datatype prayer_source = Diyanet | Mwl

fun source_str :: "prayer_source \<Rightarrow> string" where
  "source_str Diyanet = ''diyanet''"
| "source_str Mwl = ''mwl''"

datatype prayer_name = P_Fajr | P_Sunrise | P_Dhuhr | P_Asr | P_Maghrib | P_Isha

definition PRAYER_NAMES :: "prayer_name list" where
  "PRAYER_NAMES = [P_Fajr, P_Sunrise, P_Dhuhr, P_Asr, P_Maghrib, P_Isha]"

record Location =
  city :: string
  country :: string
  countryCode :: string
  lat :: pyfloat
  lon :: pyfloat
  addressLabel :: "string option"
  diyanetIlceId :: "string option"

record PrayerTimes =
  Fajr :: string
  Sunrise :: string
  Dhuhr :: string
  Asr :: string
  Maghrib :: string
  Isha :: string

text \<open>\<^verbatim>\<open>PrayerTimes.get\<close>.\<close>

fun get_time :: "PrayerTimes \<Rightarrow> prayer_name \<Rightarrow> string" where
  "get_time pt P_Fajr = Fajr pt"
| "get_time pt P_Sunrise = Sunrise pt"
| "get_time pt P_Dhuhr = Dhuhr pt"
| "get_time pt P_Asr = Asr pt"
| "get_time pt P_Maghrib = Maghrib pt"
| "get_time pt P_Isha = Isha pt"

section \<open>prayer\_api.py: normalising time strings, resolving the source\<close>

definition TURKEY_COUNTRY_CODE :: string where
  "TURKEY_COUNTRY_CODE = ''TR''"

text \<open>
  \<^verbatim>\<open>re.search(r"(\d{1,2}):(\d{2})", value)\<close>. \<open>match_here\<close> is the attempt at one
  start position: the greedy two-digit hour first, then the one-digit hour;
  \<open>re_search_hhmm\<close> tries the start positions from the left and returns the two groups.
\<close>

fun match_here :: "string \<Rightarrow> (string \<times> string) option" where
  "match_here (a # b # c # d # e # rest) =
     (if is_digit a \<and> is_digit b \<and> c = CHR '':'' \<and> is_digit d \<and> is_digit e
        then Some ([a, b], [d, e])
      else if is_digit a \<and> b = CHR '':'' \<and> is_digit c \<and> is_digit d
        then Some ([a], [c, d])
      else None)"
| "match_here [a, b, c, d] =
     (if is_digit a \<and> b = CHR '':'' \<and> is_digit c \<and> is_digit d
        then Some ([a], [c, d])
      else None)"
| "match_here _ = None"

fun re_search_hhmm :: "string \<Rightarrow> (string \<times> string) option" where
  "re_search_hhmm [] = None"
| "re_search_hhmm (c # cs) =
     (case match_here (c # cs) of
        Some g \<Rightarrow> Some g
      | None \<Rightarrow> re_search_hhmm cs)"

text \<open>\<^verbatim>\<open>re.fullmatch(r"\d{2}:\d{2}", s)\<close> as a truth value.\<close>

fun re_fullmatch_hhmm :: "string \<Rightarrow> bool" where
  "re_fullmatch_hhmm [a, b, c, d, e] =
     (is_digit a \<and> is_digit b \<and> c = CHR '':'' \<and> is_digit d \<and> is_digit e)"
| "re_fullmatch_hhmm _ = False"

definition format_time_to_hhmm :: "string \<Rightarrow> string" where
  "format_time_to_hhmm v =
     (case re_search_hhmm v of
        None \<Rightarrow> v
      | Some (g1, g2) \<Rightarrow>
          (let hours = int (nat_of_digits g1);
               minutes = int (nat_of_digits g2)
           in format_02 hours @ '':'' @ format_02 minutes))"

definition require_time_field :: "(string \<times> json) list \<Rightarrow> string \<Rightarrow> error + string" where
  "require_time_field payload key =
     (case map_of payload key of
        Some (JStr raw) \<Rightarrow>
          (let hhmm = format_time_to_hhmm raw
           in if \<not> re_fullmatch_hhmm hhmm
              then Inl (PrayerApiError (''Invalid time format for '' @ key))
              else Inr hhmm)
      | _ \<Rightarrow> Inl (PrayerApiError (''Missing time field: '' @ key)))"

text \<open>
  The two spellings of the country name, as the characters of the source file:
  the first one holds the code points 0xC3 and 0xBC after its \<open>t\<close>.
\<close>

definition TURKIYE_NAMES :: "string list" where
  "TURKIYE_NAMES = [[CHR ''t'', CHR 0xC3, CHR 0xBC] @ ''rkiye'', ''turkiye'']"

definition is_turkiye_location :: "Location \<Rightarrow> bool" where
  "is_turkiye_location location =
     (if py_upper (countryCode location) = TURKEY_COUNTRY_CODE then True
      else (let country = py_lower (py_strip (country location))
            in country \<in> set TURKIYE_NAMES))"

definition resolve_prayer_source :: "Location \<Rightarrow> prayer_source \<Rightarrow> prayer_source" where
  "resolve_prayer_source location source =
     (if is_turkiye_location location then source else Mwl)"

section \<open>prayer\_logic.py: the countdown text\<close>

definition format_countdown :: "int \<Rightarrow> string" where
  "format_countdown ms =
     (if ms \<le> 0 then ''00:00:00''
      else (let total_seconds = ms div 1000;
                hours = total_seconds div 3600;
                minutes = (total_seconds mod 3600) div 60;
                seconds = total_seconds mod 60
            in format_02 hours @ '':'' @ format_02 minutes @ '':'' @ format_02 seconds))"

section \<open>The first time-like substring, as the specification words it\<close>

text \<open>
  \<open>is_hmm h m\<close>: \<open>h\<close> is one or two digits and \<open>m\<close> is two digits.
  \<open>hmm_occurs s i h m\<close>: the text \<open>h:m\<close> stands in \<open>s\<close> at offset \<open>i\<close>.
  \<open>first_hmm s i h m\<close>: it does, and no such text starts further left.
\<close>

definition is_hmm :: "string \<Rightarrow> string \<Rightarrow> bool" where
  "is_hmm h m = ((length h = 1 \<or> length h = 2) \<and> list_all is_digit h
                 \<and> length m = 2 \<and> list_all is_digit m)"

definition hmm_occurs :: "string \<Rightarrow> nat \<Rightarrow> string \<Rightarrow> string \<Rightarrow> bool" where
  "hmm_occurs s i h m = (is_hmm h m \<and> take (length h + 3) (drop i s) = h @ '':'' @ m)"

definition first_hmm :: "string \<Rightarrow> nat \<Rightarrow> string \<Rightarrow> string \<Rightarrow> bool" where
  "first_hmm s i h m = (hmm_occurs s i h m \<and> (\<forall>j<i. \<forall>h' m'. \<not> hmm_occurs s j h' m'))"

section \<open>The world outside the program\<close>

text \<open>
  Everything the code reads from outside is a field of \<open>env\<close>, fixed for the length
  of one call: the clock, the time-zone database, the answers of the network, how a
  write of the cache file ends, the nearest-district search over the built-in location
  table (\<^verbatim>\<open>location.py\<close>, floating-point trigonometry over a data file), and Python's
  \<^verbatim>\<open>str()\<close> of floats, lists and dicts, whose exact text is not reproduced here.

  \<open>istanbul_date\<close> is (year, month, day) now in Europe/Istanbul;
  \<open>other_zone_today\<close> gives today's ISO date in any other zone, \<open>None\<close> when
  \<^verbatim>\<open>ZoneInfo\<close> rejects the name; \<open>local_today\<close> is \<^verbatim>\<open>datetime.now().date().isoformat()\<close>
  and \<open>now_iso\<close> is \<^verbatim>\<open>datetime.now().astimezone().isoformat()\<close>.
  \<open>http k\<close> is the outcome of the \<open>k\<close>-th request the process sends.
\<close>

datatype http_outcome =
    HTTPError
  | Response int "json option"

text \<open>
  How a call of \<^verbatim>\<open>_safe_write_cache\<close> ends. It creates the directory, builds the text
  with \<^verbatim>\<open>json.dumps\<close> and calls \<^verbatim>\<open>write_text\<close>, which opens the file for writing, so
  that the file is empty from then on, and only then encodes the text as UTF-8 and
  writes it. Nothing it raises is caught.

  \<open>WriteOk\<close>: every step succeeds. \<open>WriteRefused\<close>: creating the directory or opening
  the file raises \<^verbatim>\<open>OSError\<close>, and the file is as it was. \<open>WriteUnencodable\<close>: the file
  has been opened and the text holds a character that UTF-8 cannot encode, a lone
  surrogate, which \<^verbatim>\<open>json.loads\<close> builds from an escape such as \<^verbatim>\<open>\ud800\<close>;
  \<^verbatim>\<open>UnicodeEncodeError\<close> is raised. The strings of this development hold no such
  character, so that a store holding one is met here through this outcome only.
  \<open>WriteCutShort\<close>: the file has been opened and writing it raises \<^verbatim>\<open>OSError\<close>, as on a
  full disk. After the last two the file is empty, or holds a beginning of the text.
\<close>

datatype write_outcome =
    WriteOk
  | WriteRefused
  | WriteUnencodable
  | WriteCutShort

record env =
  istanbul_date :: "nat \<times> nat \<times> nat"
  other_zone_today :: "string \<Rightarrow> string option"
  local_today :: string
  now_iso :: string
  http :: "nat \<Rightarrow> http_outcome"
  write_outcome :: write_outcome
  nearest_tr_ilce :: "pyfloat \<Rightarrow> pyfloat \<Rightarrow> string option"
  py_repr :: "json \<Rightarrow> string"

text \<open>
  The cache file, by what reading it does, step by step.
  \<open>Missing\<close>: \<^verbatim>\<open>CACHE_PATH.exists()\<close> is false.
  \<open>Inaccessible\<close>: \<^verbatim>\<open>CACHE_PATH.exists()\<close> itself raises, \<^verbatim>\<open>PermissionError\<close> when a
  directory on the path cannot be searched.
  \<open>Unreadable\<close>: the file is there and \<^verbatim>\<open>read_text\<close> raises \<^verbatim>\<open>OSError\<close>.
  \<open>Undecodable\<close>: its bytes are not UTF-8, and \<^verbatim>\<open>read_text\<close> raises
  \<^verbatim>\<open>UnicodeDecodeError\<close>.
  \<open>NotJson\<close>: its text is not JSON, and \<^verbatim>\<open>json.loads\<close> raises \<^verbatim>\<open>JSONDecodeError\<close>; an
  empty file and a file cut short are of this kind.
  \<open>TooLongNumber\<close>: its text is JSON with an integer of more digits than Python
  converts, 4300 unless configured, and \<^verbatim>\<open>json.loads\<close> raises a \<^verbatim>\<open>ValueError\<close> that is
  not a \<^verbatim>\<open>JSONDecodeError\<close>.
  \<open>TooDeep\<close>: its text is JSON nested deeper than the interpreter recurses, and
  \<^verbatim>\<open>json.loads\<close> raises \<^verbatim>\<open>RecursionError\<close>.
  \<open>Stored j\<close>: \<^verbatim>\<open>json.loads\<close> returns \<open>j\<close>.
\<close>

datatype cache_file =
    Missing
  | Inaccessible
  | Unreadable
  | Undecodable
  | NotJson
  | TooLongNumber
  | TooDeep
  | Stored json

record world =
  cache :: cache_file
  requests :: nat

section \<open>cache.py\<close>

definition DIYANET_TIME_ZONE :: string where
  "DIYANET_TIME_ZONE = ''Europe/Istanbul''"

record CachedPrayerBundle =
  c_times :: PrayerTimes
  c_tomorrow_fajr :: string
  c_time_zone :: json
  c_date :: string
  c_fetched_at :: string

text \<open>\<^verbatim>\<open>date.isoformat()\<close>.\<close>

definition isoformat :: "nat \<times> nat \<times> nat \<Rightarrow> string" where
  "isoformat ymd = (case ymd of (y, m, d) \<Rightarrow>
     zfill 4 (digits_of y) @ ''-'' @ zfill 2 (digits_of m) @ ''-'' @ zfill 2 (digits_of d))"

text \<open>
  \<^verbatim>\<open>datetime.now(ZoneInfo(tz)).date().isoformat()\<close> for a zone name; \<open>None\<close> when
  \<^verbatim>\<open>ZoneInfo\<close> raises. The provider's own zone is always known.
\<close>

definition zone_today :: "env \<Rightarrow> string \<Rightarrow> string option" where
  "zone_today e tz = (if tz = DIYANET_TIME_ZONE then Some (isoformat (istanbul_date e))
                      else other_zone_today e tz)"

text \<open>
  The format specification \<^verbatim>\<open>{x:.5f}\<close>: the exact value rounded to five decimals,
  ties to the even neighbour; a negative value that rounds to zero keeps its sign, as
  negative zero does, and the infinities and not-a-number are spelled out.
\<close>

definition round_half_even :: "rat \<Rightarrow> int" where
  "round_half_even x = (let f = \<lfloor>x\<rfloor>; d = x - of_int f in
     if d < 1 / 2 then f else if 1 / 2 < d then f + 1 else if even f then f else f + 1)"

definition format_5f :: "pyfloat \<Rightarrow> string" where
  "format_5f x =
     (case x of
        Finite r \<Rightarrow>
          (let n = nat (round_half_even (\<bar>r\<bar> * 100000)) in
           (if r < 0 then ''-'' else '''') @ digits_of (n div 100000) @ ''.''
             @ zfill 5 (digits_of (n mod 100000)))
      | NegZero \<Rightarrow> ''-0.00000''
      | PosInf \<Rightarrow> ''inf''
      | NegInf \<Rightarrow> ''-inf''
      | NaN \<Rightarrow> ''nan'')"

definition cache_key :: "Location \<Rightarrow> prayer_source \<Rightarrow> string" where
  "cache_key location source =
     city location @ ''-'' @ countryCode location @ ''-'' @ format_5f (lat location)
       @ ''-'' @ format_5f (lon location) @ ''-'' @ source_str source"

text \<open>
  \<^verbatim>\<open>_safe_read_cache\<close>. The test \<^verbatim>\<open>CACHE_PATH.exists()\<close> stands before the \<^verbatim>\<open>try\<close>, and
  the \<^verbatim>\<open>except\<close> clause names \<^verbatim>\<open>OSError\<close> and \<^verbatim>\<open>JSONDecodeError\<close> only: every other
  exception leaves the function.
\<close>

definition safe_read_cache :: "cache_file \<Rightarrow> error + (string \<times> json) list" where
  "safe_read_cache f =
     (case f of
        Missing \<Rightarrow> Inr []
      | Inaccessible \<Rightarrow> Inl PermissionError
      | Unreadable \<Rightarrow> Inr []
      | Undecodable \<Rightarrow> Inl UnicodeDecodeError
      | NotJson \<Rightarrow> Inr []
      | TooLongNumber \<Rightarrow> Inl ValueError
      | TooDeep \<Rightarrow> Inl RecursionError
      | Stored (JObj data) \<Rightarrow> Inr data
      | Stored _ \<Rightarrow> Inr [])"

text \<open>
  \<^verbatim>\<open>_safe_write_cache\<close> on the file \<open>f\<close>. \<open>Inr f'\<close>: the call returned and the file is
  \<open>f'\<close>, the whole dictionary given; \<^verbatim>\<open>json.loads\<close> reads back what \<^verbatim>\<open>json.dumps\<close>
  wrote. \<open>Inl (x, f')\<close>: the call raised \<open>x\<close> and left the file as \<open>f'\<close>.
\<close>

definition safe_write_cache ::
  "env \<Rightarrow> cache_file \<Rightarrow> (string \<times> json) list \<Rightarrow> (error \<times> cache_file) + cache_file" where
  "safe_write_cache e f payload =
     (case write_outcome e of
        WriteOk \<Rightarrow> Inr (Stored (JObj payload))
      | WriteRefused \<Rightarrow> Inl (OSError, f)
      | WriteUnencodable \<Rightarrow> Inl (UnicodeEncodeError, NotJson)
      | WriteCutShort \<Rightarrow> Inl (OSError, NotJson))"

text \<open>\<^verbatim>\<open>ZoneInfo(time_zone)\<close> inside the \<^verbatim>\<open>try\<close>: a value that is not a string raises too.\<close>

fun zone_lookup :: "env \<Rightarrow> json \<Rightarrow> string option" where
  "zone_lookup e (JStr tz) = zone_today e tz"
| "zone_lookup e _ = None"

definition date_string_for_zone :: "env \<Rightarrow> json \<Rightarrow> prayer_source \<Rightarrow> string" where
  "date_string_for_zone e time_zone source =
     (case (if py_truthy time_zone then zone_lookup e time_zone else None) of
        Some d \<Rightarrow> d
      | None \<Rightarrow>
          if source = Diyanet then isoformat (istanbul_date e)
          else local_today e)"

text \<open>\<^verbatim>\<open>str(v)\<close> of a JSON value.\<close>

definition py_str :: "env \<Rightarrow> json \<Rightarrow> string" where
  "py_str e v =
     (case v of
        JStr s \<Rightarrow> s
      | JNull \<Rightarrow> ''None''
      | JBool b \<Rightarrow> (if b then ''True'' else ''False'')
      | JInt n \<Rightarrow> (if n < 0 then CHR ''-'' # digits_of (nat (- n)) else digits_of (nat n))
      | _ \<Rightarrow> py_repr e v)"

text \<open>
  \<^verbatim>\<open>data[k]\<close>: \<^verbatim>\<open>KeyError\<close> on a dict without the key, \<^verbatim>\<open>TypeError\<close> on every
  other JSON value.
\<close>

definition subscript :: "json \<Rightarrow> string \<Rightarrow> error + json" where
  "subscript data k =
     (case data of
        JObj kvs \<Rightarrow> (case map_of kvs k of Some v \<Rightarrow> Inr v | None \<Rightarrow> Inl KeyError)
      | _ \<Rightarrow> Inl TypeError)"

text \<open>\<^verbatim>\<open>PrayerTimes.from_dict\<close> and \<^verbatim>\<open>PrayerTimes.to_dict\<close>.\<close>

definition from_dict :: "env \<Rightarrow> json \<Rightarrow> error + PrayerTimes" where
  "from_dict e data =
     (case subscript data ''Fajr'' of Inl x \<Rightarrow> Inl x | Inr f \<Rightarrow>
     (case subscript data ''Sunrise'' of Inl x \<Rightarrow> Inl x | Inr s \<Rightarrow>
     (case subscript data ''Dhuhr'' of Inl x \<Rightarrow> Inl x | Inr d \<Rightarrow>
     (case subscript data ''Asr'' of Inl x \<Rightarrow> Inl x | Inr a \<Rightarrow>
     (case subscript data ''Maghrib'' of Inl x \<Rightarrow> Inl x | Inr m \<Rightarrow>
     (case subscript data ''Isha'' of Inl x \<Rightarrow> Inl x | Inr i \<Rightarrow>
        Inr \<lparr>Fajr = py_str e f, Sunrise = py_str e s, Dhuhr = py_str e d,
             Asr = py_str e a, Maghrib = py_str e m, Isha = py_str e i\<rparr>))))))"

definition to_dict :: "PrayerTimes \<Rightarrow> json" where
  "to_dict pt = JObj [(''Fajr'', JStr (Fajr pt)), (''Sunrise'', JStr (Sunrise pt)),
                      (''Dhuhr'', JStr (Dhuhr pt)), (''Asr'', JStr (Asr pt)),
                      (''Maghrib'', JStr (Maghrib pt)), (''Isha'', JStr (Isha pt))]"

text \<open>
  \<open>parse_cached_entry\<close> takes \<^verbatim>\<open>data.get(key)\<close>, \<open>None\<close> for a key that is not
  there. Every exception inside is caught and turned into \<open>None\<close>.
\<close>

definition parse_cached_entry :: "env \<Rightarrow> json option \<Rightarrow> CachedPrayerBundle option" where
  "parse_cached_entry e entry =
     (case entry of
        Some (JObj kvs) \<Rightarrow>
          (case subscript (JObj kvs) ''times'' of Inl x \<Rightarrow> None | Inr t \<Rightarrow>
          (case from_dict e t of Inl x \<Rightarrow> None | Inr pt \<Rightarrow>
          (case subscript (JObj kvs) ''tomorrow_fajr'' of Inl x \<Rightarrow> None | Inr tf \<Rightarrow>
          (case subscript (JObj kvs) ''date'' of Inl x \<Rightarrow> None | Inr d \<Rightarrow>
          (case subscript (JObj kvs) ''fetched_at'' of Inl x \<Rightarrow> None | Inr fa \<Rightarrow>
             Some \<lparr>c_times = pt, c_tomorrow_fajr = py_str e tf,
                   c_time_zone = (case map_of kvs ''time_zone'' of Some z \<Rightarrow> z | None \<Rightarrow> JNull),
                   c_date = py_str e d, c_fetched_at = py_str e fa\<rparr>)))))
      | _ \<Rightarrow> None)"

definition get_fresh_cached_bundle ::
  "env \<Rightarrow> cache_file \<Rightarrow> Location \<Rightarrow> prayer_source \<Rightarrow> error + CachedPrayerBundle option" where
  "get_fresh_cached_bundle e f location source =
     (case safe_read_cache f of
        Inl x \<Rightarrow> Inl x
      | Inr data \<Rightarrow>
          (let key = cache_key location source in
           case parse_cached_entry e (map_of data key) of
             None \<Rightarrow> Inr None
           | Some entry \<Rightarrow>
               (let expected_date = date_string_for_zone e (c_time_zone entry) source in
                if c_date entry = expected_date then Inr (Some entry) else Inr None)))"

definition get_stale_cached_bundle ::
  "env \<Rightarrow> cache_file \<Rightarrow> Location \<Rightarrow> prayer_source \<Rightarrow> error + CachedPrayerBundle option" where
  "get_stale_cached_bundle e f location source =
     (case safe_read_cache f of
        Inl x \<Rightarrow> Inl x
      | Inr data \<Rightarrow>
          (let key = cache_key location source in
           Inr (parse_cached_entry e (map_of data key))))"

text \<open>\<^verbatim>\<open>data[key] = value\<close> on a dict: an existing key keeps its place.\<close>

fun dict_set :: "string \<Rightarrow> json \<Rightarrow> (string \<times> json) list \<Rightarrow> (string \<times> json) list" where
  "dict_set k v [] = [(k, v)]"
| "dict_set k v ((k', v') # kvs) =
     (if k' = k then (k, v) # kvs else (k', v') # dict_set k v kvs)"

text \<open>
  \<open>set_cached_bundle\<close> on the file \<open>f\<close>, with the results of \<open>safe_write_cache\<close>: when
  reading raises, the file has not been touched.
\<close>

definition set_cached_bundle ::
  "env \<Rightarrow> cache_file \<Rightarrow> Location \<Rightarrow> prayer_source \<Rightarrow> PrayerTimes \<Rightarrow> string \<Rightarrow> json
     \<Rightarrow> (error \<times> cache_file) + cache_file" where
  "set_cached_bundle e f location source times' tomorrow_fajr time_zone =
     (case safe_read_cache f of
        Inl x \<Rightarrow> Inl (x, f)
      | Inr data \<Rightarrow>
          (let key = cache_key location source;
               now = now_iso e;
               data' = dict_set key
                 (JObj [(''times'', to_dict times'),
                        (''tomorrow_fajr'', JStr tomorrow_fajr),
                        (''time_zone'', time_zone),
                        (''date'', JStr (date_string_for_zone e time_zone source)),
                        (''fetched_at'', JStr now)]) data
           in safe_write_cache e f data'))"

section \<open>The freshness rule and a complete entry, as the specification words them\<close>

text \<open>
  \<open>recorded_zone_today\<close> is today's date in the time zone an entry records, when the
  entry records a zone name and the zone database knows it. \<open>spec_expected_date\<close> takes
  that date first, else today in the provider's fixed zone when the source is the
  regional one, else the local date.
\<close>

definition recorded_zone_today :: "env \<Rightarrow> json \<Rightarrow> string option" where
  "recorded_zone_today e tz =
     (case tz of JStr z \<Rightarrow> (if z = [] then None else zone_today e z) | _ \<Rightarrow> None)"

definition spec_expected_date :: "env \<Rightarrow> json \<Rightarrow> prayer_source \<Rightarrow> string" where
  "spec_expected_date e tz source =
     (case recorded_zone_today e tz of
        Some d \<Rightarrow> d
      | None \<Rightarrow> (case source of
                   Diyanet \<Rightarrow> isoformat (istanbul_date e)
                 | Mwl \<Rightarrow> local_today e))"

text \<open>
  \<open>entry_complete j\<close>: \<open>j\<close> is an object with the keys \<open>times\<close>, \<open>tomorrow_fajr\<close>,
  \<open>date\<close> and \<open>fetched_at\<close>, and its \<open>times\<close> is an object with the six prayer names.
\<close>

definition has_keys :: "string list \<Rightarrow> json \<Rightarrow> bool" where
  "has_keys ks j = (case j of JObj kvs \<Rightarrow> list_all (\<lambda>k. map_of kvs k \<noteq> None) ks | _ \<Rightarrow> False)"

definition entry_complete :: "json \<Rightarrow> bool" where
  "entry_complete j =
     (has_keys [''times'', ''tomorrow_fajr'', ''date'', ''fetched_at''] j
      \<and> (case j of
            JObj kvs \<Rightarrow>
              (case map_of kvs ''times'' of
                 Some t \<Rightarrow> has_keys [''Fajr'', ''Sunrise'', ''Dhuhr'', ''Asr'', ''Maghrib'', ''Isha''] t
               | None \<Rightarrow> False)
          | _ \<Rightarrow> False))"

section \<open>Time strings, as the specification words them\<close>

text \<open>
  \<open>hhmm_shape s\<close>: two digits, a colon, two digits. \<open>canonical_hhmm s\<close>: that, with
  the hour at most 23 and the minute at most 59.
\<close>

definition hhmm_shape :: "string \<Rightarrow> bool" where
  "hhmm_shape s = (length s = 5 \<and> is_digit (s ! 0) \<and> is_digit (s ! 1) \<and> s ! 2 = CHR '':''
                   \<and> is_digit (s ! 3) \<and> is_digit (s ! 4))"

definition canonical_hhmm :: "string \<Rightarrow> bool" where
  "canonical_hhmm s = (hhmm_shape s \<and> nat_of_digits (take 2 s) \<le> 23
                       \<and> nat_of_digits (drop 3 s) \<le> 59)"

section \<open>Today's timestamps, as the specification words them\<close>

text \<open>
  \<open>at_date d s\<close> is the time of day \<open>s\<close> on the date of \<open>d\<close>, for a string \<open>s\<close> of the
  form HH:MM. \<open>prayer_index\<close> is the place of a prayer in the fixed order.
\<close>

definition at_date :: "int \<Rightarrow> string \<Rightarrow> int" where
  "at_date d s = d - d mod 86400000000
     + (int (nat_of_digits (take 2 s)) * 60 + int (nat_of_digits (drop 3 s))) * 60000000"

fun prayer_index :: "prayer_name \<Rightarrow> nat" where
  "prayer_index P_Fajr = 0"
| "prayer_index P_Sunrise = 1"
| "prayer_index P_Dhuhr = 2"
| "prayer_index P_Asr = 3"
| "prayer_index P_Maghrib = 4"
| "prayer_index P_Isha = 5"

fun successor :: "prayer_name \<Rightarrow> prayer_name" where
  "successor P_Fajr = P_Sunrise"
| "successor P_Sunrise = P_Dhuhr"
| "successor P_Dhuhr = P_Asr"
| "successor P_Asr = P_Maghrib"
| "successor P_Maghrib = P_Isha"
| "successor P_Isha = P_Fajr"

text \<open>
  \<open>countdown_ms\<close> is the countdown to a target, never negative;
  \<open>chosen_tomorrow_fajr\<close> is the supplied tomorrow-Fajr when there is one and it is not
  empty, else today's Fajr string.
\<close>

definition countdown_ms :: "(int \<Rightarrow> int) \<Rightarrow> int \<Rightarrow> int \<Rightarrow> int" where
  "countdown_ms to_ms target now = max 0 (to_ms (target - now))"

definition chosen_tomorrow_fajr :: "PrayerTimes \<Rightarrow> string option \<Rightarrow> string" where
  "chosen_tomorrow_fajr pt tf =
     (case tf of None \<Rightarrow> Fajr pt | Some t \<Rightarrow> (if t \<noteq> [] then t else Fajr pt))"

section \<open>prayer\_api.py: the provider adapters\<close>

definition MAX_RETRIES :: nat where
  "MAX_RETRIES = 2"

text \<open>
  \<open>get_with_retries_from\<close> is the loop of \<^verbatim>\<open>_get_with_retries\<close> from a given attempt
  on; \<open>n\<close> counts the requests sent so far and is returned advanced. A response is
  its status code and its body decoded as JSON (\<open>None\<close> when the body is not JSON).
  The pauses between attempts and the text of the URL play no part.
\<close>

function get_with_retries_from ::
  "env \<Rightarrow> string \<Rightarrow> nat \<Rightarrow> nat \<Rightarrow> (error + int \<times> json option) \<times> nat" where
  "get_with_retries_from e error_message attempt n =
     (if MAX_RETRIES < attempt then (Inl (PrayerApiError error_message), n)
      else (case http e n of
              Response status_code body \<Rightarrow>
                (if 500 \<le> status_code \<and> attempt < MAX_RETRIES
                 then get_with_retries_from e error_message (attempt + 1) (n + 1)
                 else (Inr (status_code, body), n + 1))
            | HTTPError \<Rightarrow>
                (if attempt < MAX_RETRIES
                 then get_with_retries_from e error_message (attempt + 1) (n + 1)
                 else (Inl (PrayerApiError error_message), n + 1))))"
  by pat_completeness auto

termination
  by (relation "measure (\<lambda>(e, msg, attempt, n). MAX_RETRIES + 1 - attempt)") auto

declare get_with_retries_from.simps [simp del]

definition get_with_retries ::
  "env \<Rightarrow> string \<Rightarrow> nat \<Rightarrow> (error + int \<times> json option) \<times> nat" where
  "get_with_retries e error_message n = get_with_retries_from e error_message 0 n"

text \<open>\<^verbatim>\<open>obj.get(key, default)\<close>: only a dict has the method.\<close>

definition dict_get :: "json \<Rightarrow> string \<Rightarrow> json \<Rightarrow> error + json" where
  "dict_get obj k dflt =
     (case obj of
        JObj kvs \<Rightarrow> Inr (case map_of kvs k of Some v \<Rightarrow> v | None \<Rightarrow> dflt)
      | _ \<Rightarrow> Inl AttributeError)"

text \<open>\<^verbatim>\<open>re.findall(r"\d+", value)\<close>: the maximal runs of digits, left to right.\<close>

fun digit_runs_from :: "string \<Rightarrow> string \<Rightarrow> string list" where
  "digit_runs_from cur [] = (if cur = [] then [] else [rev cur])"
| "digit_runs_from cur (c # cs) =
     (if is_digit c then digit_runs_from (c # cur) cs
      else (if cur = [] then [] else [rev cur]) @ digit_runs_from [] cs)"

definition parse_diyanet_date_parts :: "string \<Rightarrow> (nat \<times> nat \<times> nat) option" where
  "parse_diyanet_date_parts v =
     (case digit_runs_from [] v of
        d # m # y # rest \<Rightarrow>
          (let day = nat_of_digits d; month = nat_of_digits m; year = nat_of_digits y
           in if day = 0 \<or> month = 0 \<or> year = 0 then None else Some (year, month, day))
      | _ \<Rightarrow> None)"

text \<open>The day after a date, for \<^verbatim>\<open>datetime.now(...) + timedelta(days=1)\<close>.\<close>

definition days_in_month :: "nat \<Rightarrow> nat \<Rightarrow> nat" where
  "days_in_month y m =
     (if m = 2 then (if y mod 4 = 0 \<and> (y mod 100 \<noteq> 0 \<or> y mod 400 = 0) then 29 else 28)
      else if m \<in> {4, 6, 9, 11} then 30 else 31)"

definition next_day :: "nat \<times> nat \<times> nat \<Rightarrow> nat \<times> nat \<times> nat" where
  "next_day ymd = (case ymd of (y, m, d) \<Rightarrow>
     if d < days_in_month y m then (y, m, d + 1)
     else if m < 12 then (y, m + 1, 1)
     else (y + 1, 1, 1))"

text \<open>
  \<open>find_diyanet_prayer_times\<close>: the first entry of the schedule whose date field parses
  to the target date. An entry that is not a dict has no \<^verbatim>\<open>get\<close>; a date field that is
  not a string cannot be searched.
\<close>

fun find_diyanet_prayer_times ::
  "json list \<Rightarrow> nat \<times> nat \<times> nat \<Rightarrow> error + (string \<times> json) list option" where
  "find_diyanet_prayer_times [] target_parts = Inr None"
| "find_diyanet_prayer_times (entry # rest) target_parts =
     (case dict_get entry ''MiladiTarihKisa'' (JStr []) of
        Inl x \<Rightarrow> Inl x
      | Inr (JStr v) \<Rightarrow>
          (if parse_diyanet_date_parts v = Some target_parts
           then (case entry of JObj kvs \<Rightarrow> Inr (Some kvs) | _ \<Rightarrow> Inl AttributeError)
           else find_diyanet_prayer_times rest target_parts)
      | Inr _ \<Rightarrow> Inl TypeError)"

definition fetch_from_diyanet :: "env \<Rightarrow> string \<Rightarrow> nat \<Rightarrow> (error + json list) \<times> nat" where
  "fetch_from_diyanet e ilce_id n =
     (case get_with_retries e ''Failed to fetch prayer times from Diyanet'' n of
        (Inl x, n') \<Rightarrow> (Inl x, n')
      | (Inr (status_code, body), n') \<Rightarrow>
          (if 400 \<le> status_code
           then (Inl (PrayerApiError ''Failed to fetch prayer times from Diyanet''), n')
           else (case body of
                   None \<Rightarrow> (Inl (PrayerApiError ''Invalid response from Diyanet''), n')
                 | Some (JArr payload) \<Rightarrow> (Inr payload, n')
                 | Some _ \<Rightarrow> (Inl (PrayerApiError ''Unexpected Diyanet response''), n'))))"

text \<open>
  The constructor call \<^verbatim>\<open>PrayerTimes(Fajr=_require_time_field(p, k1), ...)\<close>: the six
  fields are extracted in this order and the first failure is raised.
\<close>

definition build_prayer_times ::
  "(string \<times> json) list \<Rightarrow> string \<Rightarrow> string \<Rightarrow> string \<Rightarrow> string \<Rightarrow> string \<Rightarrow> string
     \<Rightarrow> error + PrayerTimes" where
  "build_prayer_times p k1 k2 k3 k4 k5 k6 =
     (case require_time_field p k1 of Inl x \<Rightarrow> Inl x | Inr f \<Rightarrow>
     (case require_time_field p k2 of Inl x \<Rightarrow> Inl x | Inr s \<Rightarrow>
     (case require_time_field p k3 of Inl x \<Rightarrow> Inl x | Inr d \<Rightarrow>
     (case require_time_field p k4 of Inl x \<Rightarrow> Inl x | Inr a \<Rightarrow>
     (case require_time_field p k5 of Inl x \<Rightarrow> Inl x | Inr m \<Rightarrow>
     (case require_time_field p k6 of Inl x \<Rightarrow> Inl x | Inr i \<Rightarrow>
        Inr \<lparr>Fajr = f, Sunrise = s, Dhuhr = d, Asr = a, Maghrib = m, Isha = i\<rparr>))))))"

definition fetch_prayer_times_from_diyanet ::
  "env \<Rightarrow> string \<Rightarrow> nat \<Rightarrow> (error + PrayerTimes) \<times> nat" where
  "fetch_prayer_times_from_diyanet e ilce_id n =
     (case fetch_from_diyanet e ilce_id n of
        (Inl x, n') \<Rightarrow> (Inl x, n')
      | (Inr data, n') \<Rightarrow>
          (case find_diyanet_prayer_times data (istanbul_date e) of
             Inl x \<Rightarrow> (Inl x, n')
           | Inr None \<Rightarrow> (Inl (PrayerApiError ''Could not find today's prayer times''), n')
           | Inr (Some today_times) \<Rightarrow>
               (if today_times = []
                then (Inl (PrayerApiError ''Could not find today's prayer times''), n')
                else (build_prayer_times today_times
                        ''Imsak'' ''Gunes'' ''Ogle'' ''Ikindi'' ''Aksam'' ''Yatsi'', n'))))"

definition fetch_tomorrow_fajr_from_diyanet ::
  "env \<Rightarrow> string \<Rightarrow> nat \<Rightarrow> (error + string) \<times> nat" where
  "fetch_tomorrow_fajr_from_diyanet e ilce_id n =
     (case fetch_from_diyanet e ilce_id n of
        (Inl x, n') \<Rightarrow> (Inl x, n')
      | (Inr data, n') \<Rightarrow>
          (case find_diyanet_prayer_times data (next_day (istanbul_date e)) of
             Inl x \<Rightarrow> (Inl x, n')
           | Inr None \<Rightarrow> (Inl (PrayerApiError ''Could not find tomorrow's prayer times''), n')
           | Inr (Some tomorrow_times) \<Rightarrow>
               (if tomorrow_times = []
                then (Inl (PrayerApiError ''Could not find tomorrow's prayer times''), n')
                else (require_time_field tomorrow_times ''Imsak'', n'))))"

text \<open>
  The part the two AlAdhan calls share: the request, the status check, the body, and the
  nested \<open>data.timings\<close> object. It returns \<open>data\<close> and the fields of \<open>timings\<close>.
\<close>

definition aladhan_timings ::
  "env \<Rightarrow> string \<Rightarrow> nat \<Rightarrow> (error + json \<times> (string \<times> json) list) \<times> nat" where
  "aladhan_timings e error_message n =
     (case get_with_retries e error_message n of
        (Inl x, n') \<Rightarrow> (Inl x, n')
      | (Inr (status_code, body), n') \<Rightarrow>
          (if 400 \<le> status_code then (Inl (PrayerApiError error_message), n')
           else (case body of
                   None \<Rightarrow> (Inl (PrayerApiError ''Invalid response from AlAdhan''), n')
                 | Some payload \<Rightarrow>
                     (case dict_get payload ''data'' (JObj []) of
                        Inl x \<Rightarrow> (Inl x, n')
                      | Inr data \<Rightarrow>
                          (case dict_get data ''timings'' (JObj []) of
                             Inl x \<Rightarrow> (Inl x, n')
                           | Inr (JObj timings) \<Rightarrow> (Inr (data, timings), n')
                           | Inr _ \<Rightarrow>
                               (Inl (PrayerApiError ''Unexpected response format from AlAdhan''),
                                n'))))))"

definition fetch_prayer_times_from_aladhan ::
  "env \<Rightarrow> Location \<Rightarrow> nat \<Rightarrow> (error + PrayerTimes \<times> json) \<times> nat" where
  "fetch_prayer_times_from_aladhan e location n =
     (case aladhan_timings e ''Failed to fetch prayer times'' n of
        (Inl x, n') \<Rightarrow> (Inl x, n')
      | (Inr (data, timings), n') \<Rightarrow>
          (case build_prayer_times timings
                  ''Fajr'' ''Sunrise'' ''Dhuhr'' ''Asr'' ''Maghrib'' ''Isha'' of
             Inl x \<Rightarrow> (Inl x, n')
           | Inr pt \<Rightarrow>
               (case dict_get data ''meta'' (JObj []) of
                  Inl x \<Rightarrow> (Inl x, n')
                | Inr meta \<Rightarrow>
                    (case dict_get meta ''timezone'' JNull of
                       Inl x \<Rightarrow> (Inl x, n')
                     | Inr tz \<Rightarrow> (Inr (pt, tz), n')))))"

definition fetch_tomorrow_fajr_from_aladhan ::
  "env \<Rightarrow> Location \<Rightarrow> nat \<Rightarrow> (error + string) \<times> nat" where
  "fetch_tomorrow_fajr_from_aladhan e location n =
     (case aladhan_timings e ''Failed to fetch tomorrow's prayer times'' n of
        (Inl x, n') \<Rightarrow> (Inl x, n')
      | (Inr (data, timings), n') \<Rightarrow> (require_time_field timings ''Fajr'', n'))"

section \<open>prayer\_api.py: the orchestrator\<close>

record PrayerFetchResult =
  r_times :: PrayerTimes
  r_tomorrow_fajr :: string
  r_time_zone :: json
  requested_source :: prayer_source
  resolved_source :: prayer_source

definition get_diyanet_ilce_id :: "env \<Rightarrow> Location \<Rightarrow> string option" where
  "get_diyanet_ilce_id e location =
     (if diyanetIlceId location \<noteq> None \<and> diyanetIlceId location \<noteq> Some []
      then diyanetIlceId location
      else if \<not> is_turkiye_location location then None
      else nearest_tr_ilce e (lat location) (lon location))"

text \<open>
  \<open>fetch_upstream\<close> is the body of the \<^verbatim>\<open>try\<close> block of \<^verbatim>\<open>fetch_prayer_bundle\<close>:
  the adapter for the resolved source, then the write to the cache. When the write
  raises, the cache file is as the write left it.
\<close>

definition fetch_upstream ::
  "env \<Rightarrow> world \<Rightarrow> Location \<Rightarrow> prayer_source \<Rightarrow> prayer_source
     \<Rightarrow> (error + PrayerFetchResult) \<times> world" where
  "fetch_upstream e w location source resolved =
     (if resolved = Diyanet then
        (case get_diyanet_ilce_id e location of
           None \<Rightarrow> (Inl (PrayerApiError ''Failed to resolve Diyanet location''), w)
         | Some ilce_id \<Rightarrow>
             (if ilce_id = []
              then (Inl (PrayerApiError ''Failed to resolve Diyanet location''), w)
              else
                (case fetch_prayer_times_from_diyanet e ilce_id (requests w) of
                   (Inl x, n1) \<Rightarrow> (Inl x, w\<lparr>requests := n1\<rparr>)
                 | (Inr times', n1) \<Rightarrow>
                     (case fetch_tomorrow_fajr_from_diyanet e ilce_id n1 of
                        (Inl x, n2) \<Rightarrow> (Inl x, w\<lparr>requests := n2\<rparr>)
                      | (Inr tomorrow_fajr, n2) \<Rightarrow>
                          (case set_cached_bundle e (cache w) location resolved times'
                                  tomorrow_fajr (JStr DIYANET_TIME_ZONE) of
                             Inl (x, f') \<Rightarrow> (Inl x, \<lparr>cache = f', requests = n2\<rparr>)
                           | Inr f' \<Rightarrow>
                               (Inr \<lparr>r_times = times', r_tomorrow_fajr = tomorrow_fajr,
                                     r_time_zone = JStr DIYANET_TIME_ZONE,
                                     requested_source = source, resolved_source = resolved\<rparr>,
                                \<lparr>cache = f', requests = n2\<rparr>))))))
      else
        (case fetch_prayer_times_from_aladhan e location (requests w) of
           (Inl x, n1) \<Rightarrow> (Inl x, w\<lparr>requests := n1\<rparr>)
         | (Inr (times', time_zone), n1) \<Rightarrow>
             (case fetch_tomorrow_fajr_from_aladhan e location n1 of
                (Inl x, n2) \<Rightarrow> (Inl x, w\<lparr>requests := n2\<rparr>)
              | (Inr tomorrow_fajr, n2) \<Rightarrow>
                  (case set_cached_bundle e (cache w) location resolved times'
                          tomorrow_fajr time_zone of
                     Inl (x, f') \<Rightarrow> (Inl x, \<lparr>cache = f', requests = n2\<rparr>)
                   | Inr f' \<Rightarrow>
                       (Inr \<lparr>r_times = times', r_tomorrow_fajr = tomorrow_fajr,
                             r_time_zone = time_zone,
                             requested_source = source, resolved_source = resolved\<rparr>,
                        \<lparr>cache = f', requests = n2\<rparr>)))))"

definition from_cached ::
  "CachedPrayerBundle \<Rightarrow> prayer_source \<Rightarrow> prayer_source \<Rightarrow> PrayerFetchResult" where
  "from_cached b source resolved =
     \<lparr>r_times = c_times b, r_tomorrow_fajr = c_tomorrow_fajr b, r_time_zone = c_time_zone b,
      requested_source = source, resolved_source = resolved\<rparr>"

definition fetch_prayer_bundle ::
  "env \<Rightarrow> world \<Rightarrow> Location \<Rightarrow> prayer_source \<Rightarrow> (error + PrayerFetchResult) \<times> world" where
  "fetch_prayer_bundle e w location source =
     (let resolved = resolve_prayer_source location source in
      case get_fresh_cached_bundle e (cache w) location resolved of
        Inl x \<Rightarrow> (Inl x, w)
      | Inr (Some fresh_cached) \<Rightarrow> (Inr (from_cached fresh_cached source resolved), w)
      | Inr None \<Rightarrow>
          (case fetch_upstream e w location source resolved of
             (Inl (PrayerApiError msg), w') \<Rightarrow>
               (case get_stale_cached_bundle e (cache w') location resolved of
                  Inl x \<Rightarrow> (Inl x, w')
                | Inr (Some stale_cached) \<Rightarrow>
                    (Inr (from_cached stale_cached source resolved), w')
                | Inr None \<Rightarrow> (Inl (PrayerApiError msg), w'))
           | (r, w') \<Rightarrow> (r, w')))"

section \<open>prayer\_logic.py: the prayer clock\<close>

text \<open>
  A \<^verbatim>\<open>datetime\<close> is the number of microseconds of wall-clock time since midnight of
  day zero. All the datetimes of one call carry the same \<^verbatim>\<open>tzinfo\<close>, and Python then
  compares and subtracts them by their wall-clock fields alone, so that comparison is
  \<open>\<le>\<close> and subtraction is \<open>-\<close> on these numbers; a \<^verbatim>\<open>timedelta\<close> is a number of
  microseconds. The years 1 to 9999 that bound a \<^verbatim>\<open>datetime\<close> are not modelled.
\<close>

type_synonym datetime = int

definition DAY_US :: int where
  "DAY_US = 86400000000"

text \<open>
  \<^verbatim>\<open>base_date.replace(hour=h, minute=m, second=0, microsecond=0)\<close>: the arguments are
  first converted to C integers, then the hour is checked, then the minute.
\<close>

definition replace_time :: "datetime \<Rightarrow> int \<Rightarrow> int \<Rightarrow> error + datetime" where
  "replace_time base_date h m =
     (if h < - 2147483648 \<or> 2147483647 < h \<or> m < - 2147483648 \<or> 2147483647 < m
        then Inl OverflowError
      else if h < 0 \<or> 23 < h then Inl ValueError
      else if m < 0 \<or> 59 < m then Inl ValueError
      else Inr (base_date - base_date mod DAY_US + (h * 60 + m) * 60000000))"

definition time_string_to_datetime :: "string \<Rightarrow> datetime \<Rightarrow> error + datetime" where
  "time_string_to_datetime time_str base_date =
     (case map py_int (take 2 (split_on (CHR '':'') time_str)) of
        [Some hours, Some minutes] \<Rightarrow> replace_time base_date hours minutes
      | _ \<Rightarrow> Inl ValueError)"

record PrayerTimePoint =
  p_name :: prayer_name
  p_time :: string
  p_timestamp :: datetime

record CurrentPrayerInfo =
  current_prayer :: "prayer_name option"
  next_prayer :: prayer_name
  next_prayer_time :: string
  time_until_next_ms :: int
  is_after_isha :: bool

text \<open>The list comprehension of \<^verbatim>\<open>get_prayer_times_array\<close>, over a list of names.\<close>

fun prayer_points :: "PrayerTimes \<Rightarrow> datetime \<Rightarrow> prayer_name list \<Rightarrow> error + PrayerTimePoint list" where
  "prayer_points prayer_times base_date [] = Inr []"
| "prayer_points prayer_times base_date (name # names) =
     (case time_string_to_datetime (get_time prayer_times name) base_date of
        Inl x \<Rightarrow> Inl x
      | Inr ts \<Rightarrow>
          (case prayer_points prayer_times base_date names of
             Inl x \<Rightarrow> Inl x
           | Inr ps \<Rightarrow>
               Inr (\<lparr>p_name = name, p_time = get_time prayer_times name, p_timestamp = ts\<rparr> # ps)))"

definition get_prayer_times_array :: "PrayerTimes \<Rightarrow> datetime \<Rightarrow> error + PrayerTimePoint list" where
  "get_prayer_times_array prayer_times base_date = prayer_points prayer_times base_date PRAYER_NAMES"

text \<open>
  The local variables of \<^verbatim>\<open>get_current_prayer_info\<close>; \<open>v_until\<close> is the
  \<^verbatim>\<open>timedelta\<close> \<^verbatim>\<open>time_until_next\<close>.
\<close>

record clock_vars =
  v_current :: "prayer_name option"
  v_next :: prayer_name
  v_next_time :: string
  v_until :: int
  v_after :: bool

text \<open>
  The loop \<^verbatim>\<open>for i in range(len(prayers) - 1, -1, -1)\<close>: \<open>scan_prayers ... (Suc i)\<close>
  is the iteration at index \<open>i\<close>, and \<open>scan_prayers ... 0\<close> is the loop running out.
\<close>

fun scan_prayers ::
  "PrayerTimePoint list \<Rightarrow> PrayerTimes \<Rightarrow> string option \<Rightarrow> datetime \<Rightarrow> clock_vars \<Rightarrow> nat
     \<Rightarrow> error + clock_vars" where
  "scan_prayers prayers prayer_times tomorrow_fajr now vars 0 = Inr vars"
| "scan_prayers prayers prayer_times tomorrow_fajr now vars (Suc i) =
     (if p_timestamp (prayers ! i) \<le> now then
        (if i < length prayers - 1 then
           Inr (vars\<lparr>v_current := Some (p_name (prayers ! i)),
                     v_next := p_name (prayers ! (i + 1)),
                     v_next_time := p_time (prayers ! (i + 1)),
                     v_until := p_timestamp (prayers ! (i + 1)) - now\<rparr>)
         else
           (let tomorrow = now + DAY_US;
                next_time = (case tomorrow_fajr of
                               None \<Rightarrow> Fajr prayer_times
                             | Some t \<Rightarrow> (if t \<noteq> [] then t else Fajr prayer_times))
            in case time_string_to_datetime next_time tomorrow of
                 Inl x \<Rightarrow> Inl x
               | Inr tomorrow_fajr_dt \<Rightarrow>
                   Inr (vars\<lparr>v_current := Some (p_name (prayers ! i)),
                             v_after := True,
                             v_next := P_Fajr,
                             v_next_time := next_time,
                             v_until := tomorrow_fajr_dt - now\<rparr>)))
      else scan_prayers prayers prayer_times tomorrow_fajr now vars i)"

text \<open>
  \<open>now\<close> is what \<^verbatim>\<open>get_time_zone_now\<close> returned. \<open>to_ms\<close> stands for
  \<^verbatim>\<open>int(td.total_seconds() * 1000)\<close>, which Python computes in floating point: it is
  a parameter, and nothing below depends on what it returns.
\<close>

definition get_current_prayer_info ::
  "(int \<Rightarrow> int) \<Rightarrow> PrayerTimes \<Rightarrow> string option \<Rightarrow> datetime \<Rightarrow> error + CurrentPrayerInfo" where
  "get_current_prayer_info to_ms prayer_times tomorrow_fajr now =
     (case get_prayer_times_array prayer_times now of
        Inl x \<Rightarrow> Inl x
      | Inr prayers \<Rightarrow>
          (case scan_prayers prayers prayer_times tomorrow_fajr now
                  \<lparr>v_current = None, v_next = P_Fajr, v_next_time = Fajr prayer_times,
                   v_until = 0, v_after = False\<rparr> (length prayers) of
             Inl x \<Rightarrow> Inl x
           | Inr vars \<Rightarrow>
               (let vars' = (if v_current vars = None
                             then vars\<lparr>v_current := Some P_Isha, v_next := P_Fajr,
                                       v_next_time := Fajr prayer_times,
                                       v_until := p_timestamp (prayers ! 0) - now\<rparr>
                             else vars);
                    time_until_next_ms = to_ms (v_until vars')
                in Inr \<lparr>current_prayer = v_current vars', next_prayer = v_next vars',
                        next_prayer_time = v_next_time vars',
                        time_until_next_ms = max 0 time_until_next_ms,
                        is_after_isha = v_after vars'\<rparr>)))"

section \<open>Sample inputs\<close>

text \<open>The locations and times of the test suite, a clock reading and a cache file.\<close>

definition sample_location :: Location where
  "sample_location = \<lparr>city = ''Istanbul'', country = ''Turkiye'', countryCode = ''TR'',
     lat = Finite (410082 / 10000), lon = Finite (289784 / 10000), addressLabel = None,
     diyanetIlceId = Some ''9541''\<rparr>"

definition sample_times :: PrayerTimes where
  "sample_times = \<lparr>Fajr = ''06:22'', Sunrise = ''07:48'', Dhuhr = ''13:23'', Asr = ''16:19'',
     Maghrib = ''18:48'', Isha = ''20:08''\<rparr>"

definition sample_env :: env where
  "sample_env = \<lparr>istanbul_date = (2025, 3, 14),
     other_zone_today = (\<lambda>tz. if tz = ''America/New_York'' then Some ''2025-03-13'' else None),
     local_today = ''2025-03-14'',
     now_iso = ''2025-03-14T05:00:00+03:00'',
     http = (\<lambda>k. HTTPError),
     write_outcome = WriteOk,
     nearest_tr_ilce = (\<lambda>la lo. None),
     py_repr = (\<lambda>j. ''?'')\<rparr>"

definition sample_entry :: json where
  "sample_entry = JObj [(''times'', to_dict sample_times), (''tomorrow_fajr'', JStr ''06:21''),
     (''time_zone'', JStr ''Europe/Istanbul''), (''date'', JStr ''2025-03-14''),
     (''fetched_at'', JStr ''2025-03-14T05:00:00+03:00'')]"

definition sample_store :: cache_file where
  "sample_store = Stored (JObj [(''Istanbul-TR-41.00820-28.97840-diyanet'', sample_entry)])"

definition sample_location_us :: Location where
  "sample_location_us = \<lparr>city = ''New York'', country = ''United States'', countryCode = ''US'',
     lat = Finite (407128 / 10000), lon = Finite (- 740060 / 10000), addressLabel = None, diyanetIlceId = None\<rparr>"

definition aladhan_odd_payload :: json where
  "aladhan_odd_payload = JObj [(''data'', JObj
     [(''timings'', JObj [(''Fajr'', JStr ''29:75''), (''Sunrise'', JStr ''07:48 (+03)''),
                          (''Dhuhr'', JStr ''13:23''), (''Asr'', JStr ''16:19''),
                          (''Maghrib'', JStr ''18:48''), (''Isha'', JStr ''20:08'')]),
      (''meta'', JObj [(''timezone'', JStr ''Europe/Berlin'')])])]"

definition unordered_times :: PrayerTimes where
  "unordered_times = \<lparr>Fajr = ''06:00'', Sunrise = ''05:00'', Dhuhr = ''12:00'', Asr = ''15:00'',
     Maghrib = ''18:00'', Isha = ''20:00''\<rparr>"

section \<open>Verification\<close>

section \<open>Decimal digits\<close>

lemma is_digit_cases:
  "is_digit c \<longleftrightarrow> c = CHR ''0'' \<or> c = CHR ''1'' \<or> c = CHR ''2'' \<or> c = CHR ''3'' \<or> c = CHR ''4''
     \<or> c = CHR ''5'' \<or> c = CHR ''6'' \<or> c = CHR ''7'' \<or> c = CHR ''8'' \<or> c = CHR ''9''"
  by (auto simp: is_digit_def)

lemma digit_val_lt10: "is_digit c \<Longrightarrow> digit_val c < 10"
  by (auto simp: is_digit_cases digit_val_def)

lemma digit_char_digit_val: "is_digit c \<Longrightarrow> digit_char (digit_val c) = c"
  by (auto simp: is_digit_cases digit_val_def digit_char_def)

lemma small_digit_cases: "n < 10 \<Longrightarrow> n \<in> {0, 1, 2, 3, 4, 5, 6, 7, 8, 9 :: nat}"
  by auto

lemma is_digit_digit_char: "n < 10 \<Longrightarrow> is_digit (digit_char n)"
  by (drule small_digit_cases) (auto simp: is_digit_def digit_char_def)

lemma digit_val_digit_char: "n < 10 \<Longrightarrow> digit_val (digit_char n) = n"
  by (drule small_digit_cases) (auto simp: digit_val_def digit_char_def)

lemma nat_of_digits_snoc: "nat_of_digits (s @ [c]) = 10 * nat_of_digits s + digit_val c"
  by (simp add: nat_of_digits_def)

lemma digits_of_all_digits: "list_all is_digit (digits_of n)"
proof (induction n rule: digits_of.induct)
  case (1 n)
  then show ?case
    by (subst digits_of.simps) (simp add: is_digit_digit_char)
qed

lemma nat_of_digits_digits_of: "nat_of_digits (digits_of n) = n"
proof (induction n rule: digits_of.induct)
  case (1 n)
  show ?case
  proof (cases "n < 10")
    case True
    then show ?thesis
      by (subst digits_of.simps) (simp add: nat_of_digits_def digit_val_digit_char)
  next
    case False
    with 1 show ?thesis
      by (subst digits_of.simps) (simp add: nat_of_digits_snoc digit_val_digit_char)
  qed
qed

lemma digits_of_nonempty: "digits_of n \<noteq> []"
  by (subst digits_of.simps) simp

lemma length_digits_of_small: "n < 10 \<Longrightarrow> length (digits_of n) = 1"
  by (subst digits_of.simps) simp

lemma length_digits_of_two: "10 \<le> n \<Longrightarrow> n < 100 \<Longrightarrow> length (digits_of n) = 2"
  by (subst digits_of.simps) (simp add: length_digits_of_small)

lemma foldl_digits_zeros:
  "foldl (\<lambda>acc c. 10 * acc + digit_val c) 0 (replicate k (CHR ''0'')) = 0"
  by (induction k) (simp_all add: digit_val_def)

lemma nat_of_digits_zfill: "nat_of_digits (zfill w s) = nat_of_digits s"
  by (simp add: nat_of_digits_def zfill_def foldl_digits_zeros)

lemma is_digit_zero: "is_digit (CHR ''0'')"
  by (simp add: is_digit_def)

lemma list_all_zfill: "list_all is_digit s \<Longrightarrow> list_all is_digit (zfill w s)"
  by (auto simp: zfill_def list_all_iff is_digit_zero)

lemma length_zfill: "length (zfill w s) = max w (length s)"
  by (simp add: zfill_def)

lemma format_02_nonneg:
  assumes "0 \<le> n"
  shows "list_all is_digit (format_02 n)" and "nat_of_digits (format_02 n) = nat n"
    and "2 \<le> length (format_02 n)" and "n < 100 \<Longrightarrow> length (format_02 n) = 2"
proof -
  from assms have f: "format_02 n = zfill 2 (digits_of (nat n))"
    by (simp add: format_02_def)
  show "list_all is_digit (format_02 n)"
    by (simp add: f list_all_zfill digits_of_all_digits)
  show "nat_of_digits (format_02 n) = nat n"
    by (simp add: f nat_of_digits_zfill nat_of_digits_digits_of)
  show "2 \<le> length (format_02 n)"
    by (simp add: f length_zfill)
  show "length (format_02 n) = 2" if "n < 100"
  proof (cases "nat n < 10")
    case True
    then show ?thesis by (simp add: f length_zfill length_digits_of_small)
  next
    case False
    with that assms have "10 \<le> nat n" "nat n < 100" by auto
    then show ?thesis by (simp add: f length_zfill length_digits_of_two)
  qed
qed

section \<open>The countdown text\<close>

lemma format_countdown_zero: "format_countdown 0 = ''00:00:00''"
  by (simp add: format_countdown_def)

lemma format_countdown_example: "format_countdown 3661000 = ''01:01:01''"
  by (simp add: format_countdown_def format_02_def zfill_def digits_of.simps digit_char_def)

text \<open>
  C8. \<open>format_countdown\<close> answers \<open>00:00:00\<close> for every input that is zero or
  negative and \<open>01:01:01\<close> for 3661000. For a positive input the text is three runs of
  decimal digits separated by colons; read back as numbers they are the hours, minutes
  and seconds obtained by floor division of the whole seconds \<open>ms div 1000\<close>. Minutes
  and seconds always take two characters, the hours at least two, and exactly two below
  one hundred hours.
\<close>

theorem format_countdown_renders:
  "(ms \<le> 0 \<longrightarrow> format_countdown ms = ''00:00:00'')
   \<and> format_countdown 3661000 = ''01:01:01''
   \<and> (0 < ms \<longrightarrow>
        (\<exists>hh mm ss.
           format_countdown ms = hh @ '':'' @ mm @ '':'' @ ss
           \<and> list_all is_digit hh \<and> 2 \<le> length hh \<and> (ms < 360000000 \<longrightarrow> length hh = 2)
           \<and> int (nat_of_digits hh) = ms div 1000 div 3600
           \<and> list_all is_digit mm \<and> length mm = 2
           \<and> int (nat_of_digits mm) = ms div 1000 mod 3600 div 60
           \<and> list_all is_digit ss \<and> length ss = 2
           \<and> int (nat_of_digits ss) = ms div 1000 mod 60))"
proof (intro conjI impI)
  assume "ms \<le> 0"
  then show "format_countdown ms = ''00:00:00''"
    by (simp add: format_countdown_def)
next
  show "format_countdown 3661000 = ''01:01:01''"
    by (rule format_countdown_example)
next
  assume pos: "0 < ms"
  define h where "h = ms div 1000 div 3600"
  define m where "m = ms div 1000 mod 3600 div 60"
  define s where "s = ms div 1000 mod 60"
  have h0: "0 \<le> h" using pos by (simp add: h_def pos_imp_zdiv_nonneg_iff)
  have m0: "0 \<le> m" "m < 100" unfolding m_def by (simp add: pos_imp_zdiv_nonneg_iff, linarith)
  have s0: "0 \<le> s" "s < 100" unfolding s_def by (simp, linarith)
  have hsmall: "h < 100" if "ms < 360000000" using that unfolding h_def by linarith
  have eq: "format_countdown ms = format_02 h @ '':'' @ format_02 m @ '':'' @ format_02 s"
    using pos by (simp add: format_countdown_def Let_def h_def m_def s_def)
  have "format_countdown ms = format_02 h @ '':'' @ format_02 m @ '':'' @ format_02 s
      \<and> list_all is_digit (format_02 h) \<and> 2 \<le> length (format_02 h)
      \<and> (ms < 360000000 \<longrightarrow> length (format_02 h) = 2)
      \<and> int (nat_of_digits (format_02 h)) = ms div 1000 div 3600
      \<and> list_all is_digit (format_02 m) \<and> length (format_02 m) = 2
      \<and> int (nat_of_digits (format_02 m)) = ms div 1000 mod 3600 div 60
      \<and> list_all is_digit (format_02 s) \<and> length (format_02 s) = 2
      \<and> int (nat_of_digits (format_02 s)) = ms div 1000 mod 60"
  proof (intro conjI impI)
    show "format_countdown ms = format_02 h @ '':'' @ format_02 m @ '':'' @ format_02 s"
      by (rule eq)
    show "list_all is_digit (format_02 h)" by (rule format_02_nonneg(1) [OF h0])
    show "2 \<le> length (format_02 h)" by (rule format_02_nonneg(3) [OF h0])
    show "length (format_02 h) = 2" if "ms < 360000000"
      by (rule format_02_nonneg(4) [OF h0 hsmall [OF that]])
    have "int (nat_of_digits (format_02 h)) = h"
      using format_02_nonneg(2) [OF h0] h0 by simp
    then show "int (nat_of_digits (format_02 h)) = ms div 1000 div 3600"
      by (simp only: h_def)
    show "list_all is_digit (format_02 m)" by (rule format_02_nonneg(1) [OF m0(1)])
    show "length (format_02 m) = 2" by (rule format_02_nonneg(4) [OF m0])
    have "int (nat_of_digits (format_02 m)) = m"
      using format_02_nonneg(2) [OF m0(1)] m0(1) by simp
    then show "int (nat_of_digits (format_02 m)) = ms div 1000 mod 3600 div 60"
      by (simp only: m_def)
    show "list_all is_digit (format_02 s)" by (rule format_02_nonneg(1) [OF s0(1)])
    show "length (format_02 s) = 2" by (rule format_02_nonneg(4) [OF s0])
    have "int (nat_of_digits (format_02 s)) = s"
      using format_02_nonneg(2) [OF s0(1)] s0(1) by simp
    then show "int (nat_of_digits (format_02 s)) = ms div 1000 mod 60"
      by (simp only: s_def)
  qed
  then show "\<exists>hh mm ss.
           format_countdown ms = hh @ '':'' @ mm @ '':'' @ ss
           \<and> list_all is_digit hh \<and> 2 \<le> length hh \<and> (ms < 360000000 \<longrightarrow> length hh = 2)
           \<and> int (nat_of_digits hh) = ms div 1000 div 3600
           \<and> list_all is_digit mm \<and> length mm = 2
           \<and> int (nat_of_digits mm) = ms div 1000 mod 3600 div 60
           \<and> list_all is_digit ss \<and> length ss = 2
           \<and> int (nat_of_digits ss) = ms div 1000 mod 60"
    by blast
qed

theorem format_countdown_renders_witness:
  "(0::int) < 45296789
   \<and> (\<exists>hh mm ss. format_countdown 45296789 = hh @ '':'' @ mm @ '':'' @ ss
         \<and> length hh = 2 \<and> nat_of_digits hh = 12
         \<and> length mm = 2 \<and> nat_of_digits mm = 34
         \<and> length ss = 2 \<and> nat_of_digits ss = 56)"
proof -
  have pos: "(0::int) < 45296789" by simp
  note ex = format_countdown_renders [of 45296789, THEN conjunct2, THEN conjunct2, THEN mp, OF pos]
  from ex obtain hh mm ss where
    r: "format_countdown 45296789 = hh @ '':'' @ mm @ '':'' @ ss"
    and h: "(45296789 < (360000000::int) \<longrightarrow> length hh = 2)"
       "int (nat_of_digits hh) = 45296789 div 1000 div 3600"
    and m: "length mm = 2" "int (nat_of_digits mm) = 45296789 div 1000 mod 3600 div 60"
    and s: "length ss = 2" "int (nat_of_digits ss) = 45296789 div 1000 mod 60"
    by (elim exE conjE)
  have "length hh = 2" using h(1) by simp
  moreover have "nat_of_digits hh = 12" using h(2) by simp
  moreover have "nat_of_digits mm = 34" using m(2) by simp
  moreover have "nat_of_digits ss = 56" using s(2) by simp
  ultimately have "format_countdown 45296789 = hh @ '':'' @ mm @ '':'' @ ss
         \<and> length hh = 2 \<and> nat_of_digits hh = 12
         \<and> length mm = 2 \<and> nat_of_digits mm = 34
         \<and> length ss = 2 \<and> nat_of_digits ss = 56"
    using r m(1) s(1) by (intro conjI)
  then have "\<exists>hh mm ss. format_countdown 45296789 = hh @ '':'' @ mm @ '':'' @ ss
         \<and> length hh = 2 \<and> nat_of_digits hh = 12
         \<and> length mm = 2 \<and> nat_of_digits mm = 34
         \<and> length ss = 2 \<and> nat_of_digits ss = 56"
    by (intro exI)
  with pos show ?thesis by (rule conjI)
qed

section \<open>Resolving the source\<close>

lemma upper_char_T:
  "(case map_of (zip lower_letters upper_letters) c of Some d \<Rightarrow> d | None \<Rightarrow> c) = CHR ''T''
   \<longleftrightarrow> c = CHR ''T'' \<or> c = CHR ''t''"
  by (auto simp: lower_letters_def upper_letters_def split: if_splits)

lemma upper_char_R:
  "(case map_of (zip lower_letters upper_letters) c of Some d \<Rightarrow> d | None \<Rightarrow> c) = CHR ''R''
   \<longleftrightarrow> c = CHR ''R'' \<or> c = CHR ''r''"
  by (auto simp: lower_letters_def upper_letters_def split: if_splits)

lemma py_upper_TR:
  "py_upper s = TURKEY_COUNTRY_CODE \<longleftrightarrow> s \<in> {''TR'', ''Tr'', ''tR'', ''tr''}"
proof -
  have "py_upper s = ''TR'' \<longleftrightarrow>
          (\<exists>a b. s = [a, b] \<and> (a = CHR ''T'' \<or> a = CHR ''t'') \<and> (b = CHR ''R'' \<or> b = CHR ''r''))"
    unfolding py_upper_def
    by (cases s rule: list.exhaust; simp add: upper_char_T upper_char_R map_eq_Cons_conv)
       (metis upper_char_T upper_char_R)
  then show ?thesis
    unfolding TURKEY_COUNTRY_CODE_def by auto
qed

text \<open>
  C2, as amended. A location whose country code is \<open>TR\<close> in any mix of upper and lower
  case keeps the requested source. So does a location whose country name, trimmed and
  lower-cased, is one of the two spellings in \<open>TURKIYE_NAMES\<close>, whatever its country
  code. A location that passes neither test gets \<open>mwl\<close>, whatever was requested.
\<close>

theorem resolve_prayer_source_cases:
  "(countryCode location \<in> {''TR'', ''Tr'', ''tR'', ''tr''}
      \<longrightarrow> resolve_prayer_source location source = source)
   \<and> (py_lower (py_strip (country location)) \<in> set TURKIYE_NAMES
      \<longrightarrow> resolve_prayer_source location source = source)
   \<and> (countryCode location \<notin> {''TR'', ''Tr'', ''tR'', ''tr''}
      \<and> py_lower (py_strip (country location)) \<notin> set TURKIYE_NAMES
      \<longrightarrow> resolve_prayer_source location source = Mwl)"
  using py_upper_TR [of "countryCode location"]
  by (simp add: resolve_prayer_source_def is_turkiye_location_def Let_def)

lemma py_lower_strip_example: "py_lower (py_strip '' Turkiye '') = ''turkiye''"
  by (simp add: py_lower_def py_strip_def py_space_def upper_letters_def lower_letters_def)

lemma py_lower_strip_example2: "py_lower (py_strip ''United States'') = ''united states''"
  by (simp add: py_lower_def py_strip_def py_space_def upper_letters_def lower_letters_def)

text \<open>
  The claim as first stated fails: a location with country code \<open>DE\<close> and country
  name \<open>Turkiye\<close> keeps the requested source \<open>diyanet\<close>.
\<close>

theorem resolve_prayer_source_counterexample:
  "py_upper (countryCode \<lparr>city = ''Berlin'', country = '' Turkiye '', countryCode = ''DE'',
        lat = Finite (5252 / 100), lon = Finite (1340 / 100), addressLabel = None, diyanetIlceId = None\<rparr>)
     \<noteq> TURKEY_COUNTRY_CODE
   \<and> resolve_prayer_source \<lparr>city = ''Berlin'', country = '' Turkiye '', countryCode = ''DE'',
        lat = Finite (5252 / 100), lon = Finite (1340 / 100), addressLabel = None, diyanetIlceId = None\<rparr> Diyanet
     \<noteq> Mwl"
  by (simp add: resolve_prayer_source_def is_turkiye_location_def py_lower_strip_example
      TURKIYE_NAMES_def py_upper_TR)

theorem resolve_prayer_source_cases_witness:
  "resolve_prayer_source \<lparr>city = ''Ankara'', country = ''Turkey'', countryCode = ''tr'',
        lat = Finite (399334 / 10000), lon = Finite (328597 / 10000), addressLabel = None,
        diyanetIlceId = None\<rparr> Diyanet = Diyanet
   \<and> resolve_prayer_source \<lparr>city = ''Berlin'', country = '' Turkiye '', countryCode = ''DE'',
        lat = Finite (5252 / 100), lon = Finite (1340 / 100), addressLabel = None,
        diyanetIlceId = None\<rparr> Diyanet = Diyanet
   \<and> resolve_prayer_source \<lparr>city = ''New York'', country = ''United States'',
        countryCode = ''US'', lat = Finite (407128 / 10000), lon = Finite (- 740060 / 10000), addressLabel = None,
        diyanetIlceId = None\<rparr> Diyanet = Mwl"
proof (intro conjI)
  show "resolve_prayer_source \<lparr>city = ''Ankara'', country = ''Turkey'', countryCode = ''tr'',
        lat = Finite (399334 / 10000), lon = Finite (328597 / 10000), addressLabel = None,
        diyanetIlceId = None\<rparr> Diyanet = Diyanet"
    by (rule resolve_prayer_source_cases [THEN conjunct1, THEN mp]) simp
  show "resolve_prayer_source \<lparr>city = ''Berlin'', country = '' Turkiye '', countryCode = ''DE'',
        lat = Finite (5252 / 100), lon = Finite (1340 / 100), addressLabel = None,
        diyanetIlceId = None\<rparr> Diyanet = Diyanet"
    by (rule resolve_prayer_source_cases [THEN conjunct2, THEN conjunct1, THEN mp])
       (simp add: py_lower_strip_example TURKIYE_NAMES_def)
  show "resolve_prayer_source \<lparr>city = ''New York'', country = ''United States'',
        countryCode = ''US'', lat = Finite (407128 / 10000), lon = Finite (- 740060 / 10000), addressLabel = None,
        diyanetIlceId = None\<rparr> Diyanet = Mwl"
    by (rule resolve_prayer_source_cases [THEN conjunct2, THEN conjunct2, THEN mp])
       (simp add: py_lower_strip_example2 TURKIYE_NAMES_def)
qed

section \<open>Normalising time strings\<close>

lemma colon_not_digit: "\<not> is_digit (CHR '':'')"
  by (simp add: is_digit_def)

lemma length1_conv: "length xs = Suc 0 \<longleftrightarrow> (\<exists>a. xs = [a])"
  by (cases xs) auto

lemma length2_conv: "length xs = 2 \<longleftrightarrow> (\<exists>a b. xs = [a, b])"
  by (cases xs; simp add: length1_conv)

lemma match_here_sound:
  "match_here t = Some (h, m) \<Longrightarrow> hmm_occurs t 0 h m"
  by (induction t rule: match_here.induct)
     (auto simp: hmm_occurs_def is_hmm_def split: if_splits)

lemma match_here_complete:
  assumes "hmm_occurs t 0 h m"
  shows "match_here t = Some (h, m)"
proof -
  from assms have hm: "is_hmm h m" and tk: "take (length h + 3) t = h @ '':'' @ m"
    by (simp_all add: hmm_occurs_def)
  from hm obtain c d where m: "m = [c, d]" and dc: "is_digit c" "is_digit d"
    by (auto simp: is_hmm_def length2_conv)
  from hm consider a where "h = [a]" "is_digit a" | a b where "h = [a, b]" "is_digit a" "is_digit b"
    by (auto simp: is_hmm_def length1_conv length2_conv)
  then show ?thesis
  proof cases
    case 1
    with tk m have "take 4 t = [a, CHR '':'', c, d]" by simp
    then obtain rest where "t = a # CHR '':'' # c # d # rest"
      by (metis append_take_drop_id append_Cons append_Nil)
    with 1 m dc show ?thesis
      by (cases rest) (simp_all add: colon_not_digit)
  next
    case 2
    with tk m have "take 5 t = [a, b, CHR '':'', c, d]" by simp
    then obtain rest where "t = a # b # CHR '':'' # c # d # rest"
      by (metis append_take_drop_id append_Cons append_Nil)
    with 2 m dc show ?thesis by simp
  qed
qed

lemma hmm_occurs_Cons: "hmm_occurs (c # cs) (Suc j) h m = hmm_occurs cs j h m"
  by (simp add: hmm_occurs_def)

lemma hmm_occurs_nonempty: "hmm_occurs s i h m \<Longrightarrow> i < length s"
proof (rule ccontr)
  assume a: "hmm_occurs s i h m" and "\<not> i < length s"
  then have "drop i s = []" by simp
  with a show False by (simp add: hmm_occurs_def)
qed

lemma re_search_first:
  "first_hmm s i h m \<Longrightarrow> re_search_hhmm s = Some (h, m)"
proof (induction i arbitrary: s)
  case 0
  then have occ: "hmm_occurs s 0 h m" by (simp add: first_hmm_def)
  then have "match_here s = Some (h, m)" by (rule match_here_complete)
  moreover from hmm_occurs_nonempty [OF occ] obtain c cs where "s = c # cs"
    by (cases s) auto
  ultimately show ?case by simp
next
  case (Suc k)
  then have occ: "hmm_occurs s (Suc k) h m"
    and none: "\<And>j h' m'. j < Suc k \<Longrightarrow> \<not> hmm_occurs s j h' m'"
    by (auto simp: first_hmm_def)
  from hmm_occurs_nonempty [OF occ] obtain c cs where s: "s = c # cs"
    by (cases s) auto
  have "match_here s = None"
  proof (cases "match_here s")
    case (Some g)
    then have "hmm_occurs s 0 (fst g) (snd g)" by (intro match_here_sound) simp
    with none [of 0] show ?thesis by simp
  qed simp
  moreover have "first_hmm cs k h m"
    using occ none [of "Suc _"] by (auto simp: first_hmm_def s hmm_occurs_Cons)
  ultimately show ?case using Suc.IH [of cs] by (simp add: s)
qed

lemma re_search_sound:
  "re_search_hhmm s = Some (h, m) \<Longrightarrow> \<exists>i. hmm_occurs s i h m"
proof (induction s)
  case Nil
  then show ?case by simp
next
  case (Cons c cs)
  show ?case
  proof (cases "match_here (c # cs)")
    case None
    with Cons obtain i where "hmm_occurs cs i h m" by auto
    then have "hmm_occurs (c # cs) (Suc i) h m" by (simp add: hmm_occurs_Cons)
    then show ?thesis ..
  next
    case (Some g)
    with Cons.prems have "match_here (c # cs) = Some (h, m)" by simp
    then have "hmm_occurs (c # cs) 0 h m" by (rule match_here_sound)
    then show ?thesis ..
  qed
qed

lemma first_hmm_exists:
  assumes "hmm_occurs s i h m"
  shows "\<exists>i0 h0 m0. first_hmm s i0 h0 m0"
proof -
  define P where "P j = (\<exists>h' m'. hmm_occurs s j h' m')" for j
  have "P i" using assms by (auto simp: P_def)
  then have "P (LEAST j. P j)" by (rule LeastI)
  moreover have "\<not> P j" if "j < (LEAST j. P j)" for j
    using that by (rule not_less_Least)
  ultimately show ?thesis by (auto simp: P_def first_hmm_def)
qed

lemma format_02_digits:
  assumes "list_all is_digit h" and "length h = 1 \<or> length h = 2"
  shows "format_02 (int (nat_of_digits h)) = zfill 2 h"
proof -
  from assms consider a where "h = [a]" "is_digit a" | a b where "h = [a, b]" "is_digit a" "is_digit b"
    by (auto simp: length1_conv length2_conv)
  then have "zfill 2 (digits_of (nat_of_digits h)) = zfill 2 h"
  proof cases
    case 1
    then show ?thesis
      by (subst digits_of.simps)
         (simp add: nat_of_digits_def digit_val_lt10 digit_char_digit_val)
  next
    case 2
    have n: "nat_of_digits h = 10 * digit_val a + digit_val b"
      by (simp add: 2 nat_of_digits_def)
    show ?thesis
    proof (cases "digit_val a = 0")
      case True
      with 2 have "a = CHR ''0''" by (auto simp: is_digit_cases digit_val_def)
      with True 2 n show ?thesis
        by (subst digits_of.simps)
           (simp add: digit_val_lt10 digit_char_digit_val zfill_def)
    next
      case False
      with 2(3) have "\<not> nat_of_digits h < 10"
        and "nat_of_digits h div 10 = digit_val a" and "nat_of_digits h mod 10 = digit_val b"
        using digit_val_lt10 [of b] by (simp_all add: n)
      with 2 show ?thesis
        by (subst digits_of.simps, subst digits_of.simps)
           (simp add: digit_val_lt10 digit_char_digit_val zfill_def)
    qed
  qed
  then show ?thesis by (simp add: format_02_def)
qed

lemma format_time_first:
  assumes "first_hmm s i h m"
  shows "format_time_to_hhmm s = zfill 2 h @ '':'' @ m"
proof -
  from assms have hm: "is_hmm h m" by (simp add: first_hmm_def hmm_occurs_def)
  then have "format_02 (int (nat_of_digits h)) = zfill 2 h"
    and "format_02 (int (nat_of_digits m)) = zfill 2 m"
    by (simp_all add: is_hmm_def format_02_digits)
  moreover from hm have "zfill 2 m = m" by (simp add: is_hmm_def zfill_def)
  ultimately show ?thesis
    using re_search_first [OF assms] by (simp add: format_time_to_hhmm_def)
qed

lemma fullmatch_occurs: "re_fullmatch_hhmm s \<Longrightarrow> \<exists>h m. hmm_occurs s 0 h m"
proof (induction s rule: re_fullmatch_hhmm.induct)
  case (1 a b c d e)
  then have "hmm_occurs [a, b, c, d, e] 0 [a, b] [d, e]"
    by (simp add: hmm_occurs_def is_hmm_def)
  then show ?case by blast
qed simp_all

lemma format_time_no_match:
  assumes "\<And>i h m. \<not> hmm_occurs s i h m"
  shows "format_time_to_hhmm s = s" and "\<not> re_fullmatch_hhmm s"
proof -
  have "re_search_hhmm s = None"
  proof (cases "re_search_hhmm s")
    case (Some g)
    then have "re_search_hhmm s = Some (fst g, snd g)" by simp
    from re_search_sound [OF this] assms show ?thesis by blast
  qed simp
  then show "format_time_to_hhmm s = s" by (simp add: format_time_to_hhmm_def)
  from assms fullmatch_occurs show "\<not> re_fullmatch_hhmm s" by blast
qed

lemma format_time_example: "format_time_to_hhmm ''5:07 (+03)'' = ''05:07''"
  by (simp add: format_time_to_hhmm_def is_digit_def nat_of_digits_def digit_val_def
      format_02_def zfill_def digits_of.simps digit_char_def)

text \<open>
  C3. Whenever a string holds a text of one or two digits, a colon and two digits, it
  holds a first one, and \<open>format_time_to_hhmm\<close> returns that first one with its hour
  padded to two digits; \<open>5:07 (+03)\<close> becomes \<open>05:07\<close>. \<open>require_time_field\<close>
  raises \<open>PrayerApiError\<close> with a message that ends in the name of the field when the
  field is missing from the payload, when it is not a string, and when it is a string
  that holds no such text.
\<close>

theorem time_normalisation:
  "(hmm_occurs s i h m \<longrightarrow> (\<exists>i0 h0 m0. first_hmm s i0 h0 m0))
   \<and> (first_hmm s i h m \<longrightarrow> format_time_to_hhmm s = zfill 2 h @ '':'' @ m)
   \<and> format_time_to_hhmm ''5:07 (+03)'' = ''05:07''
   \<and> (map_of payload key = None \<or> (\<exists>v. map_of payload key = Some v \<and> (\<forall>raw. v \<noteq> JStr raw))
        \<longrightarrow> require_time_field payload key = Inl (PrayerApiError (''Missing time field: '' @ key)))
   \<and> (map_of payload key = Some (JStr raw) \<and> (\<forall>j h' m'. \<not> hmm_occurs raw j h' m')
        \<longrightarrow> require_time_field payload key = Inl (PrayerApiError (''Invalid time format for '' @ key)))"
proof (intro conjI impI)
  assume "hmm_occurs s i h m"
  then show "\<exists>i0 h0 m0. first_hmm s i0 h0 m0" by (rule first_hmm_exists)
next
  assume "first_hmm s i h m"
  then show "format_time_to_hhmm s = zfill 2 h @ '':'' @ m" by (rule format_time_first)
next
  show "format_time_to_hhmm ''5:07 (+03)'' = ''05:07''" by (rule format_time_example)
next
  assume "map_of payload key = None \<or> (\<exists>v. map_of payload key = Some v \<and> (\<forall>raw. v \<noteq> JStr raw))"
  then show "require_time_field payload key = Inl (PrayerApiError (''Missing time field: '' @ key))"
    by (auto simp: require_time_field_def split: option.splits json.splits)
next
  assume a: "map_of payload key = Some (JStr raw) \<and> (\<forall>j h' m'. \<not> hmm_occurs raw j h' m')"
  then have "format_time_to_hhmm raw = raw" and "\<not> re_fullmatch_hhmm raw"
    by (simp_all add: format_time_no_match)
  with a show "require_time_field payload key = Inl (PrayerApiError (''Invalid time format for '' @ key))"
    by (simp add: require_time_field_def)
qed

lemma first_example: "first_hmm ''at 123:45, 6:07'' 4 ''23'' ''45''"
proof -
  have occ: "hmm_occurs ''at 123:45, 6:07'' 4 ''23'' ''45''"
    by (simp add: hmm_occurs_def is_hmm_def is_digit_def)
  have "\<not> hmm_occurs ''at 123:45, 6:07'' j h' m'" if "j < 4" for j h' m'
  proof -
    from that have "j = 0 \<or> j = 1 \<or> j = 2 \<or> j = 3" by arith
    then show ?thesis
      by (auto simp: hmm_occurs_def is_hmm_def is_digit_def length1_conv length2_conv)
  qed
  with occ show ?thesis by (simp add: first_hmm_def)
qed

lemma no_hmm_example: "\<not> hmm_occurs ''noon'' j h' m'"
proof
  assume a: "hmm_occurs ''noon'' j h' m'"
  then have "j < 4" using hmm_occurs_nonempty [OF a] by simp
  then have "j = 0 \<or> j = 1 \<or> j = 2 \<or> j = 3" by arith
  with a show False
    by (auto simp: hmm_occurs_def is_hmm_def is_digit_def length1_conv length2_conv)
qed

theorem time_normalisation_witness:
  "first_hmm ''at 123:45, 6:07'' 4 ''23'' ''45''
   \<and> format_time_to_hhmm ''at 123:45, 6:07'' = ''23:45''
   \<and> require_time_field [(''Gunes'', JStr ''07:48'')] ''Imsak''
        = Inl (PrayerApiError ''Missing time field: Imsak'')
   \<and> require_time_field [(''Imsak'', JInt 622)] ''Imsak''
        = Inl (PrayerApiError ''Missing time field: Imsak'')
   \<and> require_time_field [(''Imsak'', JStr ''noon'')] ''Imsak''
        = Inl (PrayerApiError ''Invalid time format for Imsak'')"
proof (intro conjI)
  show f: "first_hmm ''at 123:45, 6:07'' 4 ''23'' ''45''" by (rule first_example)
  from time_normalisation [of "''at 123:45, 6:07''" 4 "''23''" "''45''", THEN conjunct2, THEN conjunct1, THEN mp, OF f]
  show "format_time_to_hhmm ''at 123:45, 6:07'' = ''23:45''"
    by (simp add: zfill_def)
  have "map_of [(''Gunes'', JStr ''07:48'')] ''Imsak'' = None" by simp
  then have "map_of [(''Gunes'', JStr ''07:48'')] ''Imsak'' = None
      \<or> (\<exists>v. map_of [(''Gunes'', JStr ''07:48'')] ''Imsak'' = Some v \<and> (\<forall>raw. v \<noteq> JStr raw))" ..
  from time_normalisation [THEN conjunct2, THEN conjunct2, THEN conjunct2, THEN conjunct1, THEN mp, OF this]
  show "require_time_field [(''Gunes'', JStr ''07:48'')] ''Imsak''
        = Inl (PrayerApiError ''Missing time field: Imsak'')" by simp
  have "\<exists>v. map_of [(''Imsak'', JInt 622)] ''Imsak'' = Some v \<and> (\<forall>raw. v \<noteq> JStr raw)" by simp
  then have "map_of [(''Imsak'', JInt 622)] ''Imsak'' = None
      \<or> (\<exists>v. map_of [(''Imsak'', JInt 622)] ''Imsak'' = Some v \<and> (\<forall>raw. v \<noteq> JStr raw))" ..
  from time_normalisation [THEN conjunct2, THEN conjunct2, THEN conjunct2, THEN conjunct1, THEN mp, OF this]
  show "require_time_field [(''Imsak'', JInt 622)] ''Imsak''
        = Inl (PrayerApiError ''Missing time field: Imsak'')" by simp
  have "map_of [(''Imsak'', JStr ''noon'')] ''Imsak'' = Some (JStr ''noon'')
      \<and> (\<forall>j h' m'. \<not> hmm_occurs ''noon'' j h' m')"
    by (simp add: no_hmm_example)
  from time_normalisation [THEN conjunct2, THEN conjunct2, THEN conjunct2, THEN conjunct2, THEN mp, OF this]
  show "require_time_field [(''Imsak'', JStr ''noon'')] ''Imsak''
        = Inl (PrayerApiError ''Invalid time format for Imsak'')" by simp
qed

section \<open>The cache store\<close>

lemma map_of_dict_set: "map_of (dict_set k v kvs) = (map_of kvs)(k \<mapsto> v)"
  by (induction kvs) (auto simp: fun_eq_iff)

lemma py_str_JStr: "py_str e (JStr s) = s"
  by (simp add: py_str_def)

lemma from_dict_to_dict: "from_dict e (to_dict pt) = Inr pt"
  by (simp add: from_dict_def to_dict_def subscript_def py_str_JStr)

lemma date_string_spec: "date_string_for_zone e tz source = spec_expected_date e tz source"
  by (cases tz; cases source)
     (simp_all add: date_string_for_zone_def spec_expected_date_def recorded_zone_today_def
        split: option.splits)

lemma parse_written_entry:
  "parse_cached_entry e
     (Some (JObj [(''times'', to_dict pt), (''tomorrow_fajr'', JStr tf), (''time_zone'', tz),
                  (''date'', JStr d), (''fetched_at'', JStr fa)]))
   = Some \<lparr>c_times = pt, c_tomorrow_fajr = tf, c_time_zone = tz, c_date = d, c_fetched_at = fa\<rparr>"
  by (simp add: parse_cached_entry_def subscript_def from_dict_to_dict py_str_JStr)

lemma set_cached_bundle_Inr:
  assumes "set_cached_bundle e f location source times' tf tz = Inr f'"
  shows "\<exists>data. safe_read_cache f = Inr data \<and> write_outcome e = WriteOk
           \<and> f' = Stored (JObj (dict_set (cache_key location source)
                 (JObj [(''times'', to_dict times'), (''tomorrow_fajr'', JStr tf),
                        (''time_zone'', tz),
                        (''date'', JStr (date_string_for_zone e tz source)),
                        (''fetched_at'', JStr (now_iso e))]) data))"
  using assms
  by (auto simp: set_cached_bundle_def safe_write_cache_def Let_def
      split: sum.splits write_outcome.splits)

text \<open>
  C4. After \<open>set_cached_bundle\<close> has written a bundle, \<open>get_fresh_cached_bundle\<close> for
  the same location and source, at any later clock reading \<open>e'\<close> for which the freshness
  rule still computes the date it computed at the write, returns a bundle with the six
  times, the tomorrow-Fajr and the time zone that were written.
\<close>

theorem cache_roundtrip:
  assumes "set_cached_bundle e f location source times' tomorrow_fajr time_zone = Inr f'"
    and "date_string_for_zone e' time_zone source = date_string_for_zone e time_zone source"
  shows "\<exists>b. get_fresh_cached_bundle e' f' location source = Inr (Some b)
            \<and> c_times b = times' \<and> c_tomorrow_fajr b = tomorrow_fajr \<and> c_time_zone b = time_zone"
proof -
  from set_cached_bundle_Inr [OF assms(1)] obtain data where
    f': "f' = Stored (JObj (dict_set (cache_key location source)
                 (JObj [(''times'', to_dict times'), (''tomorrow_fajr'', JStr tomorrow_fajr),
                        (''time_zone'', time_zone),
                        (''date'', JStr (date_string_for_zone e time_zone source)),
                        (''fetched_at'', JStr (now_iso e))]) data))"
    by blast
  have "get_fresh_cached_bundle e' f' location source
      = Inr (Some \<lparr>c_times = times', c_tomorrow_fajr = tomorrow_fajr, c_time_zone = time_zone,
                    c_date = date_string_for_zone e time_zone source,
                    c_fetched_at = now_iso e\<rparr>)"
    by (simp add: get_fresh_cached_bundle_def f' safe_read_cache_def map_of_dict_set
        parse_written_entry assms(2))
  then show ?thesis by simp
qed

text \<open>
  C5. When the stored entry for the key parses to \<open>b\<close>, \<open>get_fresh_cached_bundle\<close>
  returns \<open>b\<close> if the stored date equals \<open>spec_expected_date\<close> and is absent if it does
  not: today in the recorded zone when present and valid, else in Europe/Istanbul for the
  regional source, else the local date.
\<close>

theorem fresh_iff_today:
  assumes "safe_read_cache f = Inr data"
    and "parse_cached_entry e (map_of data (cache_key location source)) = Some b"
  shows "(c_date b = spec_expected_date e (c_time_zone b) source
            \<longrightarrow> get_fresh_cached_bundle e f location source = Inr (Some b))
       \<and> (c_date b \<noteq> spec_expected_date e (c_time_zone b) source
            \<longrightarrow> get_fresh_cached_bundle e f location source = Inr None)"
  using assms by (simp add: get_fresh_cached_bundle_def date_string_spec)

text \<open>
  C10, as amended. Whenever \<open>set_cached_bundle\<close> returns, the file it leaves holds a
  JSON object in which every key other than the one written maps to the entry it mapped
  to in the store that was read. A file that holds a JSON object is read as that object,
  and the call returns whenever nothing fails in the write. Nothing is said of a call
  that raises.
\<close>

theorem set_cached_bundle_frame:
  "(safe_read_cache f = Inr data
      \<and> set_cached_bundle e f location source times' tomorrow_fajr time_zone = Inr f' \<longrightarrow>
      (\<exists>data'. f' = Stored (JObj data')
         \<and> (\<forall>k. k \<noteq> cache_key location source \<longrightarrow> map_of data' k = map_of data k)))
   \<and> (f = Stored (JObj data) \<longrightarrow> safe_read_cache f = Inr data)
   \<and> (safe_read_cache f = Inr data \<and> write_outcome e = WriteOk \<longrightarrow>
      (\<exists>f'. set_cached_bundle e f location source times' tomorrow_fajr time_zone = Inr f'))"
proof (intro conjI impI)
  assume a: "safe_read_cache f = Inr data
      \<and> set_cached_bundle e f location source times' tomorrow_fajr time_zone = Inr f'"
  then have "f' = Stored (JObj (dict_set (cache_key location source)
                 (JObj [(''times'', to_dict times'), (''tomorrow_fajr'', JStr tomorrow_fajr),
                        (''time_zone'', time_zone),
                        (''date'', JStr (date_string_for_zone e time_zone source)),
                        (''fetched_at'', JStr (now_iso e))]) data))"
    by (auto simp: set_cached_bundle_def safe_write_cache_def Let_def
        split: write_outcome.splits)
  then show "\<exists>data'. f' = Stored (JObj data')
         \<and> (\<forall>k. k \<noteq> cache_key location source \<longrightarrow> map_of data' k = map_of data k)"
    by (simp add: map_of_dict_set)
next
  assume "f = Stored (JObj data)"
  then show "safe_read_cache f = Inr data" by (simp add: safe_read_cache_def)
next
  assume "safe_read_cache f = Inr data \<and> write_outcome e = WriteOk"
  then show "\<exists>f'. set_cached_bundle e f location source times' tomorrow_fajr time_zone = Inr f'"
    by (simp add: set_cached_bundle_def safe_write_cache_def)
qed

lemma subscript_Inr_iff: "(\<exists>v. subscript j k = Inr v) \<longleftrightarrow> has_keys [k] j"
  by (cases j) (auto simp: subscript_def has_keys_def split: option.splits)

lemma from_dict_None_iff:
  "(\<exists>x. from_dict e t = Inl x) \<longleftrightarrow> \<not> has_keys [''Fajr'', ''Sunrise'', ''Dhuhr'', ''Asr'', ''Maghrib'', ''Isha''] t"
  by (cases t) (auto simp: from_dict_def subscript_def has_keys_def split: option.splits)

lemma parse_None_iff:
  "parse_cached_entry e (Some j) = None \<longleftrightarrow> \<not> entry_complete j"
proof (cases j)
  case (JObj kvs)
  show ?thesis
  proof (cases "map_of kvs ''times''")
    case None
    then show ?thesis
      by (simp add: JObj parse_cached_entry_def subscript_def entry_complete_def has_keys_def)
  next
    case (Some t)
    show ?thesis
    proof (cases "from_dict e t")
      case (Inl x)
      with from_dict_None_iff [of e t] Some show ?thesis
        by (auto simp add: JObj parse_cached_entry_def subscript_def entry_complete_def)
    next
      case (Inr pt)
      with from_dict_None_iff [of e t]
      have "has_keys [''Fajr'', ''Sunrise'', ''Dhuhr'', ''Asr'', ''Maghrib'', ''Isha''] t" by auto
      with Some Inr show ?thesis
        by (auto simp add: JObj parse_cached_entry_def subscript_def entry_complete_def
            has_keys_def split: option.splits)
    qed
  qed
qed (simp_all add: parse_cached_entry_def entry_complete_def has_keys_def)


lemma replicate_num: "replicate (numeral k) x = x # replicate (pred_numeral k) x"
  by (simp add: numeral_eq_Suc)

lemma round_half_even_whole:
  "round_half_even 4100820 = 4100820" "round_half_even 2897840 = 2897840"
  "round_half_even 4071280 = 4071280" "round_half_even 7400600 = 7400600"
  by (simp_all add: round_half_even_def)

lemma sample_key: "cache_key sample_location Diyanet = ''Istanbul-TR-41.00820-28.97840-diyanet''"
  unfolding cache_key_def sample_location_def format_5f_def Let_def
  by (simp add: round_half_even_whole digits_of.simps digit_char_def zfill_def replicate_num)

lemma sample_istanbul_today: "isoformat (istanbul_date sample_env) = ''2025-03-14''"
proof -
  have "istanbul_date sample_env = (2025, 3, 14)" by (simp add: sample_env_def)
  then show ?thesis
    unfolding isoformat_def by (simp add: digits_of.simps digit_char_def zfill_def)
qed

lemma sample_write_ok: "write_outcome sample_env = WriteOk"
  by (simp add: sample_env_def)

lemma sample_now: "now_iso sample_env = ''2025-03-14T05:00:00+03:00''"
  by (simp add: sample_env_def)

lemma sample_set:
  "set_cached_bundle sample_env Missing sample_location Diyanet sample_times ''06:21''
     (JStr ''Europe/Istanbul'') = Inr sample_store"
  by (simp add: set_cached_bundle_def safe_read_cache_def safe_write_cache_def sample_key
      date_string_for_zone_def zone_today_def DIYANET_TIME_ZONE_def sample_istanbul_today
      sample_store_def sample_entry_def sample_write_ok sample_now)

theorem cache_roundtrip_witness:
  "\<exists>b. get_fresh_cached_bundle (sample_env\<lparr>now_iso := ''2025-03-14T23:59:00+03:00''\<rparr>)
          sample_store sample_location Diyanet = Inr (Some b)
       \<and> c_times b = sample_times \<and> c_tomorrow_fajr b = ''06:21''
       \<and> c_time_zone b = JStr ''Europe/Istanbul''"
proof (rule cache_roundtrip [OF sample_set])
  show "date_string_for_zone (sample_env\<lparr>now_iso := ''2025-03-14T23:59:00+03:00''\<rparr>)
          (JStr ''Europe/Istanbul'') Diyanet
        = date_string_for_zone sample_env (JStr ''Europe/Istanbul'') Diyanet"
    by (simp add: date_string_for_zone_def zone_today_def DIYANET_TIME_ZONE_def)
qed

lemma sample_read: "safe_read_cache sample_store = Inr [(''Istanbul-TR-41.00820-28.97840-diyanet'', sample_entry)]"
  by (simp add: sample_store_def safe_read_cache_def)

lemma sample_parse:
  "parse_cached_entry e (Some sample_entry)
   = Some \<lparr>c_times = sample_times, c_tomorrow_fajr = ''06:21'',
           c_time_zone = JStr ''Europe/Istanbul'', c_date = ''2025-03-14'',
           c_fetched_at = ''2025-03-14T05:00:00+03:00''\<rparr>"
  unfolding sample_entry_def by (rule parse_written_entry)

lemma sample_env_later_today: "isoformat (2025, 3, 15) = ''2025-03-15''"
  unfolding isoformat_def prod.case
  by (simp add: digits_of.simps digit_char_def zfill_def)

theorem fresh_iff_today_witness:
  "get_fresh_cached_bundle sample_env sample_store sample_location Diyanet
     = Inr (Some \<lparr>c_times = sample_times, c_tomorrow_fajr = ''06:21'',
           c_time_zone = JStr ''Europe/Istanbul'', c_date = ''2025-03-14'',
           c_fetched_at = ''2025-03-14T05:00:00+03:00''\<rparr>)
   \<and> get_fresh_cached_bundle (sample_env\<lparr>istanbul_date := (2025, 3, 15)\<rparr>) sample_store
        sample_location Diyanet = Inr None"
proof
  have p: "parse_cached_entry e
      (map_of [(''Istanbul-TR-41.00820-28.97840-diyanet'', sample_entry)]
         (cache_key sample_location Diyanet))
    = Some \<lparr>c_times = sample_times, c_tomorrow_fajr = ''06:21'',
           c_time_zone = JStr ''Europe/Istanbul'', c_date = ''2025-03-14'',
           c_fetched_at = ''2025-03-14T05:00:00+03:00''\<rparr>" for e
    by (simp add: sample_key sample_parse)
  have today: "spec_expected_date sample_env (JStr ''Europe/Istanbul'') Diyanet = ''2025-03-14''"
    by (simp add: spec_expected_date_def recorded_zone_today_def zone_today_def
        DIYANET_TIME_ZONE_def sample_istanbul_today)
  have later: "spec_expected_date (sample_env\<lparr>istanbul_date := (2025, 3, 15)\<rparr>)
      (JStr ''Europe/Istanbul'') Diyanet = ''2025-03-15''"
    by (simp add: spec_expected_date_def recorded_zone_today_def zone_today_def
        DIYANET_TIME_ZONE_def sample_env_later_today)
  from fresh_iff_today [OF sample_read p, THEN conjunct1] today
  show "get_fresh_cached_bundle sample_env sample_store sample_location Diyanet
     = Inr (Some \<lparr>c_times = sample_times, c_tomorrow_fajr = ''06:21'',
           c_time_zone = JStr ''Europe/Istanbul'', c_date = ''2025-03-14'',
           c_fetched_at = ''2025-03-14T05:00:00+03:00''\<rparr>)"
    by simp
  from fresh_iff_today [OF sample_read p, THEN conjunct2] later
  show "get_fresh_cached_bundle (sample_env\<lparr>istanbul_date := (2025, 3, 15)\<rparr>) sample_store
        sample_location Diyanet = Inr None"
    by simp
qed

lemma sample_key_us: "cache_key sample_location_us Mwl = ''New York-US-40.71280--74.00600-mwl''"
  unfolding cache_key_def sample_location_us_def format_5f_def Let_def
  by (simp add: round_half_even_whole digits_of.simps digit_char_def zfill_def replicate_num)

lemma parse_absent: "parse_cached_entry e None = None"
  by (simp add: parse_cached_entry_def)

theorem set_cached_bundle_frame_witness:
  "\<exists>data'. set_cached_bundle sample_env sample_store sample_location_us Mwl sample_times
               ''05:01'' (JStr ''America/New_York'') = Inr (Stored (JObj data'))
     \<and> map_of data' ''Istanbul-TR-41.00820-28.97840-diyanet'' = Some sample_entry"
proof -
  let ?set = "set_cached_bundle sample_env sample_store sample_location_us Mwl sample_times
               ''05:01'' (JStr ''America/New_York'')"
  note frame = set_cached_bundle_frame [where f = sample_store and e = sample_env
      and data = "[(''Istanbul-TR-41.00820-28.97840-diyanet'', sample_entry)]"
      and location = sample_location_us and source = Mwl and times' = sample_times
      and tomorrow_fajr = "''05:01''" and time_zone = "JStr ''America/New_York''"]
  from frame [THEN conjunct2, THEN conjunct2] sample_read sample_write_ok
  obtain f' where s: "?set = Inr f'" by blast
  from frame [where f' = f', THEN conjunct1] sample_read s
  obtain data' where f': "f' = Stored (JObj data')"
    and fr: "\<forall>k. k \<noteq> cache_key sample_location_us Mwl \<longrightarrow>
           map_of data' k = map_of [(''Istanbul-TR-41.00820-28.97840-diyanet'', sample_entry)] k"
    by blast
  from fr have "map_of data' ''Istanbul-TR-41.00820-28.97840-diyanet'' = Some sample_entry"
    by (simp add: sample_key_us)
  with s f' show ?thesis by blast
qed

text \<open>
  The claim as first stated fails. The store holds an entry for Istanbul and a bundle
  for New York is written; the file is opened and the disk is full. The call raises, and
  in the file it leaves the entry for Istanbul, stored under another key than the one
  written, is gone.
\<close>

theorem set_cached_bundle_frame_counterexample:
  "cache_key sample_location_us Mwl \<noteq> ''Istanbul-TR-41.00820-28.97840-diyanet''
   \<and> safe_read_cache sample_store
       = Inr [(''Istanbul-TR-41.00820-28.97840-diyanet'', sample_entry)]
   \<and> set_cached_bundle (sample_env\<lparr>write_outcome := WriteCutShort\<rparr>) sample_store
        sample_location_us Mwl sample_times ''05:01'' (JStr ''America/New_York'')
       = Inl (OSError, NotJson)
   \<and> safe_read_cache NotJson = Inr []
   \<and> get_stale_cached_bundle sample_env NotJson sample_location Diyanet = Inr None"
proof (intro conjI)
  show "cache_key sample_location_us Mwl \<noteq> ''Istanbul-TR-41.00820-28.97840-diyanet''"
    by (simp add: sample_key_us)
  show "safe_read_cache sample_store
       = Inr [(''Istanbul-TR-41.00820-28.97840-diyanet'', sample_entry)]"
    by (rule sample_read)
  have "write_outcome (sample_env\<lparr>write_outcome := WriteCutShort\<rparr>) = WriteCutShort"
    by simp
  then show "set_cached_bundle (sample_env\<lparr>write_outcome := WriteCutShort\<rparr>) sample_store
        sample_location_us Mwl sample_times ''05:01'' (JStr ''America/New_York'')
       = Inl (OSError, NotJson)"
    by (simp add: set_cached_bundle_def sample_read safe_write_cache_def)
  show "safe_read_cache NotJson = Inr []" by (simp add: safe_read_cache_def)
  show "get_stale_cached_bundle sample_env NotJson sample_location Diyanet = Inr None"
    by (simp add: get_stale_cached_bundle_def safe_read_cache_def parse_absent)
qed

text \<open>
  The same loss for every store that can be read, when the text cannot be encoded or
  the write is cut short.
\<close>

lemma failed_write_empties_store:
  assumes "safe_read_cache f = Inr data"
    and "write_outcome e = WriteUnencodable \<or> write_outcome e = WriteCutShort"
  shows "\<exists>x. set_cached_bundle e f location source times' tomorrow_fajr time_zone
               = Inl (x, NotJson)"
  using assms by (auto simp: set_cached_bundle_def safe_write_cache_def)

lemma read_empty:
  "f = Missing \<or> f = Unreadable \<or> f = NotJson \<or> (\<exists>j. f = Stored j \<and> (\<forall>kvs. j \<noteq> JObj kvs))
   \<Longrightarrow> safe_read_cache f = Inr []"
  by (auto simp: safe_read_cache_def split: json.splits)

text \<open>
  The files on which reading raises, and what it raises: \<open>safe_read_cache\<close> catches
  none of the four, and both lookups raise the same.
\<close>

lemma store_read_raises:
  "safe_read_cache f = Inl x \<longleftrightarrow>
     (f = Inaccessible \<and> x = PermissionError) \<or> (f = Undecodable \<and> x = UnicodeDecodeError)
     \<or> (f = TooLongNumber \<and> x = ValueError) \<or> (f = TooDeep \<and> x = RecursionError)"
  by (cases f) (auto simp: safe_read_cache_def split: json.splits)

lemma lookups_raise_with_read:
  assumes "safe_read_cache f = Inl x"
  shows "get_fresh_cached_bundle e f location source = Inl x
         \<and> get_stale_cached_bundle e f location source = Inl x"
  using assms by (simp add: get_fresh_cached_bundle_def get_stale_cached_bundle_def)

lemma stale_is_parse:
  assumes "safe_read_cache f = Inr data"
  shows "get_stale_cached_bundle e f location source
         = Inr (parse_cached_entry e (map_of data (cache_key location source)))"
  using assms by (simp add: get_stale_cached_bundle_def)

lemma fresh_returns:
  assumes "safe_read_cache f = Inr data"
  shows "get_fresh_cached_bundle e f location source
         = Inr (case parse_cached_entry e (map_of data (cache_key location source)) of
                  None \<Rightarrow> None
                | Some b \<Rightarrow> (if c_date b = date_string_for_zone e (c_time_zone b) source
                             then Some b else None))"
  using assms by (simp add: get_fresh_cached_bundle_def Let_def split: option.splits)

lemma parse_absent_iff:
  "(parse_cached_entry e entry = None)
   = (case entry of None \<Rightarrow> True | Some j \<Rightarrow> \<not> entry_complete j)"
  by (cases entry) (simp_all add: parse_absent parse_None_iff)

text \<open>
  C6, as amended. A file that is missing, that cannot be read for an error of the
  operating system, that is not JSON or that is not a JSON object is read as the empty
  store, and both lookups give absent. Whenever reading the store returns, the two
  lookups return without raising (the zone database knows Europe/Istanbul, as
  throughout); the stale lookup is absent exactly when the key is not stored or its
  entry is not complete (\<open>entry_complete\<close>), and then the fresh lookup is absent too; a
  value of the wrong type under a key that is there does not make the entry absent. The
  answer for a key depends on no other key of the store. Nothing is said of the files on
  which reading the store raises.
\<close>

theorem cache_lookup_defensive:
  "(f = Missing \<or> f = Unreadable \<or> f = NotJson \<or> (\<exists>j. f = Stored j \<and> (\<forall>kvs. j \<noteq> JObj kvs)) \<longrightarrow>
      safe_read_cache f = Inr []
      \<and> get_fresh_cached_bundle e f location source = Inr None
      \<and> get_stale_cached_bundle e f location source = Inr None)
   \<and> (f = Stored (JObj data) \<longrightarrow> safe_read_cache f = Inr data)
   \<and> (safe_read_cache f = Inr data \<longrightarrow>
      (\<exists>r. get_fresh_cached_bundle e f location source = Inr r)
      \<and> (\<exists>r. get_stale_cached_bundle e f location source = Inr r))
   \<and> (safe_read_cache f = Inr data \<longrightarrow>
      (get_stale_cached_bundle e f location source = Inr None) =
        (case map_of data (cache_key location source) of
           None \<Rightarrow> True
         | Some j \<Rightarrow> \<not> entry_complete j))
   \<and> (get_stale_cached_bundle e f location source = Inr None \<longrightarrow>
      get_fresh_cached_bundle e f location source = Inr None)
   \<and> (safe_read_cache f = Inr data \<and> safe_read_cache f2 = Inr data2
      \<and> map_of data (cache_key location source) = map_of data2 (cache_key location source) \<longrightarrow>
      get_fresh_cached_bundle e f location source = get_fresh_cached_bundle e f2 location source
      \<and> get_stale_cached_bundle e f location source = get_stale_cached_bundle e f2 location source)"
proof (intro conjI impI)
  assume "f = Missing \<or> f = Unreadable \<or> f = NotJson \<or> (\<exists>j. f = Stored j \<and> (\<forall>kvs. j \<noteq> JObj kvs))"
  then show d: "safe_read_cache f = Inr []" by (rule read_empty)
  show "get_fresh_cached_bundle e f location source = Inr None"
    by (simp add: fresh_returns [OF d] parse_absent)
  show "get_stale_cached_bundle e f location source = Inr None"
    by (simp add: stale_is_parse [OF d] parse_absent)
next
  assume "f = Stored (JObj data)"
  then show "safe_read_cache f = Inr data" by (simp add: safe_read_cache_def)
next
  assume d: "safe_read_cache f = Inr data"
  show "\<exists>r. get_fresh_cached_bundle e f location source = Inr r"
    by (simp add: fresh_returns [OF d])
  show "\<exists>r. get_stale_cached_bundle e f location source = Inr r"
    by (simp add: stale_is_parse [OF d])
next
  assume d: "safe_read_cache f = Inr data"
  show "(get_stale_cached_bundle e f location source = Inr None) =
        (case map_of data (cache_key location source) of
           None \<Rightarrow> True
         | Some j \<Rightarrow> \<not> entry_complete j)"
    by (simp add: stale_is_parse [OF d] parse_absent_iff)
next
  assume a: "get_stale_cached_bundle e f location source = Inr None"
  show "get_fresh_cached_bundle e f location source = Inr None"
  proof (cases "safe_read_cache f")
    case (Inl x)
    with a show ?thesis by (simp add: get_stale_cached_bundle_def)
  next
    case (Inr d)
    with a show ?thesis by (simp add: stale_is_parse [OF Inr] fresh_returns [OF Inr])
  qed
next
  assume a: "safe_read_cache f = Inr data \<and> safe_read_cache f2 = Inr data2
      \<and> map_of data (cache_key location source) = map_of data2 (cache_key location source)"
  then have d: "safe_read_cache f = Inr data" and d2: "safe_read_cache f2 = Inr data2"
    and m: "map_of data (cache_key location source) = map_of data2 (cache_key location source)"
    by simp_all
  show "get_fresh_cached_bundle e f location source
      = get_fresh_cached_bundle e f2 location source"
    by (simp add: fresh_returns [OF d] fresh_returns [OF d2] m)
  show "get_stale_cached_bundle e f location source
      = get_stale_cached_bundle e f2 location source"
    by (simp add: stale_is_parse [OF d] stale_is_parse [OF d2] m)
qed

text \<open>
  The claim as first stated fails: an entry whose \<open>tomorrow_fajr\<close> is \<open>null\<close>, whose
  \<open>date\<close> is a number and whose \<open>fetched_at\<close> is a truth value is returned, with the
  three values turned into text by \<^verbatim>\<open>str()\<close>.
\<close>

theorem cache_lookup_defensive_counterexample:
  "get_stale_cached_bundle sample_env
     (Stored (JObj [(''Istanbul-TR-41.00820-28.97840-diyanet'',
        JObj [(''times'', to_dict sample_times), (''tomorrow_fajr'', JNull),
              (''date'', JInt 20250314), (''fetched_at'', JBool True)])]))
     sample_location Diyanet
   = Inr (Some \<lparr>c_times = sample_times, c_tomorrow_fajr = ''None'', c_time_zone = JNull,
                 c_date = ''20250314'', c_fetched_at = ''True''\<rparr>)"
  by (simp add: get_stale_cached_bundle_def safe_read_cache_def sample_key parse_cached_entry_def
      subscript_def from_dict_to_dict py_str_def digits_of.simps digit_char_def)

theorem cache_lookup_defensive_witness:
  "get_fresh_cached_bundle sample_env NotJson sample_location Diyanet = Inr None
   \<and> get_stale_cached_bundle sample_env NotJson sample_location Diyanet = Inr None
   \<and> get_stale_cached_bundle sample_env
        (Stored (JObj [(''Istanbul-TR-41.00820-28.97840-diyanet'',
           JObj [(''times'', to_dict sample_times), (''date'', JStr ''2025-03-14'')])]))
        sample_location Diyanet = Inr None
   \<and> (\<exists>r. get_fresh_cached_bundle sample_env sample_store sample_location Diyanet = Inr r)"
proof -
  have "NotJson = Missing \<or> NotJson = Unreadable \<or> NotJson = NotJson
      \<or> (\<exists>j. NotJson = Stored j \<and> (\<forall>kvs. j \<noteq> JObj kvs))"
    by simp
  from cache_lookup_defensive [THEN conjunct1, THEN mp, OF this]
  have a: "get_fresh_cached_bundle sample_env NotJson sample_location Diyanet = Inr None
      \<and> get_stale_cached_bundle sample_env NotJson sample_location Diyanet = Inr None"
    by simp
  let ?data = "[(''Istanbul-TR-41.00820-28.97840-diyanet'',
           JObj [(''times'', to_dict sample_times), (''date'', JStr ''2025-03-14'')])]"
  have inc: "\<not> entry_complete (JObj [(''times'', to_dict sample_times), (''date'', JStr ''2025-03-14'')])"
    by (simp add: entry_complete_def has_keys_def)
  have rd: "safe_read_cache (Stored (JObj ?data)) = Inr ?data"
    by (rule cache_lookup_defensive [THEN conjunct2, THEN conjunct1, THEN mp, OF refl])
  from cache_lookup_defensive [THEN conjunct2, THEN conjunct2, THEN conjunct2, THEN conjunct1,
      THEN mp, OF rd, of sample_env sample_location Diyanet]
  have b: "get_stale_cached_bundle sample_env (Stored (JObj ?data)) sample_location Diyanet
      = Inr None"
    using inc by (simp add: sample_key)
  from cache_lookup_defensive [THEN conjunct2, THEN conjunct2, THEN conjunct1, THEN mp,
      OF sample_read, of sample_env sample_location Diyanet]
  have c: "\<exists>r. get_fresh_cached_bundle sample_env sample_store sample_location Diyanet = Inr r"
    by simp
  from a b c show ?thesis by simp
qed

section \<open>The provider adapters\<close>

lemma fullmatch_shape: "re_fullmatch_hhmm s = hhmm_shape s"
proof (induction s rule: re_fullmatch_hhmm.induct)
  case (1 a b c d e)
  show ?case by (simp add: hhmm_shape_def)
qed (simp_all add: hhmm_shape_def)

lemma require_time_field_shape:
  "require_time_field p k = Inr v \<Longrightarrow> hhmm_shape v"
  by (auto simp: require_time_field_def Let_def fullmatch_shape
      split: option.splits json.splits if_splits)

lemma build_prayer_times_shape:
  assumes "build_prayer_times p k1 k2 k3 k4 k5 k6 = Inr pt"
  shows "hhmm_shape (get_time pt name)"
proof -
  from assms obtain f s d a m i where
    r: "require_time_field p k1 = Inr f" "require_time_field p k2 = Inr s"
       "require_time_field p k3 = Inr d" "require_time_field p k4 = Inr a"
       "require_time_field p k5 = Inr m" "require_time_field p k6 = Inr i"
    and pt: "pt = \<lparr>Fajr = f, Sunrise = s, Dhuhr = d, Asr = a, Maghrib = m, Isha = i\<rparr>"
    by (auto simp: build_prayer_times_def split: sum.splits)
  from r have "hhmm_shape f" "hhmm_shape s" "hhmm_shape d" "hhmm_shape a" "hhmm_shape m"
    "hhmm_shape i"
    by (auto dest: require_time_field_shape)
  then show ?thesis by (cases name) (simp_all add: pt)
qed

text \<open>
  C9, as amended. Every field of a \<open>PrayerTimes\<close> returned by either adapter is two
  digits, a colon and two digits. The ranges of the hour and of the minute are not
  checked.
\<close>

theorem adapter_times_shape:
  "(fetch_prayer_times_from_diyanet e ilce_id n = (Inr pt, n')
      \<longrightarrow> hhmm_shape (get_time pt name))
   \<and> (fetch_prayer_times_from_aladhan e location n = (Inr (pt, tz), n')
      \<longrightarrow> hhmm_shape (get_time pt name))"
proof (intro conjI impI)
  assume "fetch_prayer_times_from_diyanet e ilce_id n = (Inr pt, n')"
  then obtain p where "build_prayer_times p ''Imsak'' ''Gunes'' ''Ogle'' ''Ikindi'' ''Aksam'' ''Yatsi'' = Inr pt"
    by (auto simp: fetch_prayer_times_from_diyanet_def
        split: prod.splits sum.splits option.splits if_splits)
  then show "hhmm_shape (get_time pt name)" by (rule build_prayer_times_shape)
next
  assume "fetch_prayer_times_from_aladhan e location n = (Inr (pt, tz), n')"
  then obtain p where "build_prayer_times p ''Fajr'' ''Sunrise'' ''Dhuhr'' ''Asr'' ''Maghrib'' ''Isha'' = Inr pt"
    by (auto simp: fetch_prayer_times_from_aladhan_def
        split: prod.splits sum.splits)
  then show "hhmm_shape (get_time pt name)" by (rule build_prayer_times_shape)
qed

lemma digit_chars:
  "is_digit (CHR ''0'')" "is_digit (CHR ''1'')" "is_digit (CHR ''2'')" "is_digit (CHR ''3'')"
  "is_digit (CHR ''4'')" "is_digit (CHR ''5'')" "is_digit (CHR ''6'')" "is_digit (CHR ''7'')"
  "is_digit (CHR ''8'')" "is_digit (CHR ''9'')" "\<not> is_digit (CHR '':'')" "\<not> is_digit (CHR '' '')"
  by (simp_all add: is_digit_def)

lemma format_time_fixed:
  assumes "is_digit a" "is_digit b" "is_digit c" "is_digit d"
  shows "format_time_to_hhmm (a # b # CHR '':'' # c # d # rest) = [a, b, CHR '':'', c, d]"
proof -
  have "format_02 (int (nat_of_digits [a, b])) = [a, b]"
    and "format_02 (int (nat_of_digits [c, d])) = [c, d]"
    using assms by (simp_all add: format_02_digits zfill_def)
  with assms show ?thesis by (simp add: format_time_to_hhmm_def)
qed

lemma odd_fields:
  "require_time_field [(k, JStr (a # b # CHR '':'' # c # d # rest))] k
     = (if is_digit a \<and> is_digit b \<and> is_digit c \<and> is_digit d
        then Inr [a, b, CHR '':'', c, d]
        else require_time_field [(k, JStr (a # b # CHR '':'' # c # d # rest))] k)"
  by (simp add: require_time_field_def format_time_fixed)

lemma require_time_field_two_digit:
  assumes "map_of p k = Some (JStr (a # b # CHR '':'' # c # d # rest))"
    and "is_digit a" "is_digit b" "is_digit c" "is_digit d"
  shows "require_time_field p k = Inr [a, b, CHR '':'', c, d]"
  using assms by (simp add: require_time_field_def format_time_fixed)

lemma single_response:
  "http e n = Response 200 body \<Longrightarrow> get_with_retries e msg n = (Inr (200, body), n + 1)"
  unfolding get_with_retries_def
  by (subst get_with_retries_from.simps) (simp add: MAX_RETRIES_def)

lemma aladhan_odd_fetch:
  "fetch_prayer_times_from_aladhan
     (sample_env\<lparr>http := (\<lambda>k. Response 200 (Some aladhan_odd_payload))\<rparr>) sample_location_us 0
   = (Inr (\<lparr>Fajr = ''29:75'', Sunrise = ''07:48'', Dhuhr = ''13:23'', Asr = ''16:19'',
            Maghrib = ''18:48'', Isha = ''20:08''\<rparr>, JStr ''Europe/Berlin''), 1)"
proof -
  let ?e = "sample_env\<lparr>http := (\<lambda>k. Response 200 (Some aladhan_odd_payload))\<rparr>"
  let ?t = "[(''Fajr'', JStr ''29:75''), (''Sunrise'', JStr ''07:48 (+03)''),
             (''Dhuhr'', JStr ''13:23''), (''Asr'', JStr ''16:19''),
             (''Maghrib'', JStr ''18:48''), (''Isha'', JStr ''20:08'')]"
  have g: "get_with_retries ?e msg 0 = (Inr (200, Some aladhan_odd_payload), 1)" for msg
    using single_response [of ?e 0 "Some aladhan_odd_payload" msg] by simp
  have b: "build_prayer_times ?t ''Fajr'' ''Sunrise'' ''Dhuhr'' ''Asr'' ''Maghrib'' ''Isha''
      = Inr \<lparr>Fajr = ''29:75'', Sunrise = ''07:48'', Dhuhr = ''13:23'', Asr = ''16:19'',
            Maghrib = ''18:48'', Isha = ''20:08''\<rparr>"
    by (simp add: build_prayer_times_def require_time_field_two_digit digit_chars)
  have t: "aladhan_timings ?e ''Failed to fetch prayer times'' 0
      = (Inr (JObj [(''timings'', JObj ?t),
                    (''meta'', JObj [(''timezone'', JStr ''Europe/Berlin'')])], ?t), 1)"
    unfolding aladhan_timings_def g
    by (simp add: dict_get_def aladhan_odd_payload_def)
  show ?thesis
    unfolding fetch_prayer_times_from_aladhan_def t
    by (simp add: b dict_get_def)
qed

text \<open>
  The claim as first stated fails: on an upstream payload whose Fajr is \<open>29:75\<close> the
  AlAdhan adapter returns a \<open>PrayerTimes\<close> whose Fajr is \<open>29:75\<close>, which is not a
  time of the 24-hour clock.
\<close>

theorem adapter_times_shape_counterexample:
  "fst (fetch_prayer_times_from_aladhan
     (sample_env\<lparr>http := (\<lambda>k. Response 200 (Some aladhan_odd_payload))\<rparr>) sample_location_us 0)
   = Inr (\<lparr>Fajr = ''29:75'', Sunrise = ''07:48'', Dhuhr = ''13:23'', Asr = ''16:19'',
            Maghrib = ''18:48'', Isha = ''20:08''\<rparr>, JStr ''Europe/Berlin'')
   \<and> \<not> canonical_hhmm ''29:75''"
  by (simp add: aladhan_odd_fetch canonical_hhmm_def nat_of_digits_def digit_val_def)

theorem adapter_times_shape_witness:
  "hhmm_shape (get_time \<lparr>Fajr = ''29:75'', Sunrise = ''07:48'', Dhuhr = ''13:23'', Asr = ''16:19'',
            Maghrib = ''18:48'', Isha = ''20:08''\<rparr> P_Sunrise)"
  by (rule adapter_times_shape [THEN conjunct2, THEN mp, OF aladhan_odd_fetch])

section \<open>The orchestrator\<close>

lemma set_cached_bundle_no_api_error:
  "set_cached_bundle e f location source times' tf tz \<noteq> Inl (PrayerApiError msg, f')"
  by (auto simp: set_cached_bundle_def safe_write_cache_def Let_def store_read_raises
      split: sum.splits write_outcome.splits)

lemma upstream_error_keeps_cache:
  assumes "fetch_upstream e w location source resolved = (Inl (PrayerApiError msg), w')"
  shows "cache w' = cache w"
proof (cases "resolved = Diyanet")
  case True
  with assms show ?thesis
    by (auto simp: fetch_upstream_def set_cached_bundle_no_api_error
        split: option.splits if_splits prod.splits sum.splits)
next
  case False
  with assms show ?thesis
    by (auto simp: fetch_upstream_def set_cached_bundle_no_api_error
        split: prod.splits sum.splits)
qed

lemma stale_reads_when_fresh_reads:
  assumes "get_fresh_cached_bundle e f location source = Inr r"
  shows "\<exists>r'. get_stale_cached_bundle e f location source = Inr r'"
  using assms
  by (auto simp: get_fresh_cached_bundle_def get_stale_cached_bundle_def split: sum.splits)

text \<open>
  C1. Suppose the fresh lookup under the resolved key misses and the adapter path raises
  \<open>PrayerApiError\<close>. If a stale entry exists under the resolved key,
  \<open>fetch_prayer_bundle\<close> returns its times, tomorrow-Fajr and time zone; if none
  exists, it raises the same \<open>PrayerApiError\<close>. One of the two is the case: the stale
  lookup itself does not raise here. The cache is as it was before the call.
\<close>

theorem stale_fallback:
  assumes "get_fresh_cached_bundle e (cache w) location (resolve_prayer_source location source)
             = Inr None"
    and "fetch_upstream e w location source (resolve_prayer_source location source)
             = (Inl (PrayerApiError msg), w')"
  shows "(get_stale_cached_bundle e (cache w) location (resolve_prayer_source location source)
            = Inr (Some b)
          \<longrightarrow> fetch_prayer_bundle e w location source
              = (Inr \<lparr>r_times = c_times b, r_tomorrow_fajr = c_tomorrow_fajr b,
                      r_time_zone = c_time_zone b, requested_source = source,
                      resolved_source = resolve_prayer_source location source\<rparr>, w'))
       \<and> (get_stale_cached_bundle e (cache w) location (resolve_prayer_source location source)
            = Inr None
          \<longrightarrow> fetch_prayer_bundle e w location source = (Inl (PrayerApiError msg), w'))
       \<and> (\<exists>r. get_stale_cached_bundle e (cache w) location
                 (resolve_prayer_source location source) = Inr r)"
proof -
  have c: "cache w' = cache w" using assms(2) by (rule upstream_error_keeps_cache)
  show ?thesis
  proof (intro conjI impI)
    assume "get_stale_cached_bundle e (cache w) location (resolve_prayer_source location source)
            = Inr (Some b)"
    with assms c show "fetch_prayer_bundle e w location source
              = (Inr \<lparr>r_times = c_times b, r_tomorrow_fajr = c_tomorrow_fajr b,
                      r_time_zone = c_time_zone b, requested_source = source,
                      resolved_source = resolve_prayer_source location source\<rparr>, w')"
      by (simp add: fetch_prayer_bundle_def from_cached_def)
  next
    assume "get_stale_cached_bundle e (cache w) location (resolve_prayer_source location source)
            = Inr None"
    with assms c show "fetch_prayer_bundle e w location source = (Inl (PrayerApiError msg), w')"
      by (simp add: fetch_prayer_bundle_def)
  next
    from assms(1) show "\<exists>r. get_stale_cached_bundle e (cache w) location
                 (resolve_prayer_source location source) = Inr r"
      by (rule stale_reads_when_fresh_reads)
  qed
qed

lemma network_down:
  assumes "\<And>k. http e k = HTTPError"
  shows "get_with_retries e msg n = (Inl (PrayerApiError msg), n + 3)"
  unfolding get_with_retries_def
  by (subst get_with_retries_from.simps, subst get_with_retries_from.simps,
      subst get_with_retries_from.simps) (simp add: MAX_RETRIES_def assms)

lemma sample_resolved: "resolve_prayer_source sample_location Diyanet = Diyanet"
  by (simp add: resolve_prayer_source_def is_turkiye_location_def py_upper_TR
      sample_location_def)

lemma sample_ilce: "get_diyanet_ilce_id e sample_location = Some ''9541''"
  by (simp add: get_diyanet_ilce_id_def sample_location_def)

lemma upstream_network_down:
  assumes "\<And>k. http e k = HTTPError"
  shows "fetch_upstream e w sample_location Diyanet Diyanet
         = (Inl (PrayerApiError ''Failed to fetch prayer times from Diyanet''),
            w\<lparr>requests := requests w + 3\<rparr>)"
  by (simp add: fetch_upstream_def sample_ilce fetch_prayer_times_from_diyanet_def
      fetch_from_diyanet_def network_down [OF assms])

lemma sample_fresh_next_day:
  "get_fresh_cached_bundle (sample_env\<lparr>istanbul_date := (2025, 3, 15)\<rparr>) sample_store
     sample_location Diyanet = Inr None"
  by (simp add: get_fresh_cached_bundle_def sample_read sample_key sample_parse
      date_string_for_zone_def zone_today_def DIYANET_TIME_ZONE_def sample_env_later_today)

lemma sample_stale:
  "get_stale_cached_bundle e sample_store sample_location Diyanet
   = Inr (Some \<lparr>c_times = sample_times, c_tomorrow_fajr = ''06:21'',
           c_time_zone = JStr ''Europe/Istanbul'', c_date = ''2025-03-14'',
           c_fetched_at = ''2025-03-14T05:00:00+03:00''\<rparr>)"
  by (simp add: get_stale_cached_bundle_def sample_read sample_key sample_parse)

lemma sample_http_down: "http (sample_env\<lparr>istanbul_date := d\<rparr>) k = HTTPError"
  by (simp add: sample_env_def)

theorem stale_fallback_witness:
  "fetch_prayer_bundle (sample_env\<lparr>istanbul_date := (2025, 3, 15)\<rparr>)
     \<lparr>cache = sample_store, requests = 0\<rparr> sample_location Diyanet
   = (Inr \<lparr>r_times = sample_times, r_tomorrow_fajr = ''06:21'',
           r_time_zone = JStr ''Europe/Istanbul'', requested_source = Diyanet,
           resolved_source = Diyanet\<rparr>,
      \<lparr>cache = sample_store, requests = 3\<rparr>)
   \<and> fetch_prayer_bundle sample_env \<lparr>cache = Missing, requests = 0\<rparr> sample_location Diyanet
   = (Inl (PrayerApiError ''Failed to fetch prayer times from Diyanet''),
      \<lparr>cache = Missing, requests = 3\<rparr>)"
proof
  let ?e = "sample_env\<lparr>istanbul_date := (2025, 3, 15)\<rparr>"
  let ?w = "\<lparr>cache = sample_store, requests = 0\<rparr>"
  have f: "get_fresh_cached_bundle ?e (cache ?w) sample_location
      (resolve_prayer_source sample_location Diyanet) = Inr None"
    by (simp add: sample_resolved sample_fresh_next_day)
  have u: "fetch_upstream ?e ?w sample_location Diyanet
      (resolve_prayer_source sample_location Diyanet)
      = (Inl (PrayerApiError ''Failed to fetch prayer times from Diyanet''),
         \<lparr>cache = sample_store, requests = 3\<rparr>)"
    by (simp add: sample_resolved upstream_network_down [OF sample_http_down])
  have s: "get_stale_cached_bundle ?e (cache ?w) sample_location
      (resolve_prayer_source sample_location Diyanet)
      = Inr (Some \<lparr>c_times = sample_times, c_tomorrow_fajr = ''06:21'',
           c_time_zone = JStr ''Europe/Istanbul'', c_date = ''2025-03-14'',
           c_fetched_at = ''2025-03-14T05:00:00+03:00''\<rparr>)"
    by (simp add: sample_resolved sample_stale)
  from stale_fallback [OF f u, THEN conjunct1, THEN mp, OF s]
  show "fetch_prayer_bundle ?e ?w sample_location Diyanet
   = (Inr \<lparr>r_times = sample_times, r_tomorrow_fajr = ''06:21'',
           r_time_zone = JStr ''Europe/Istanbul'', requested_source = Diyanet,
           resolved_source = Diyanet\<rparr>,
      \<lparr>cache = sample_store, requests = 3\<rparr>)"
    by (simp add: sample_resolved)
next
  let ?w = "\<lparr>cache = Missing, requests = 0\<rparr>"
  have f: "get_fresh_cached_bundle sample_env (cache ?w) sample_location
      (resolve_prayer_source sample_location Diyanet) = Inr None"
    by (simp add: get_fresh_cached_bundle_def safe_read_cache_def parse_absent)
  have u: "fetch_upstream sample_env ?w sample_location Diyanet
      (resolve_prayer_source sample_location Diyanet)
      = (Inl (PrayerApiError ''Failed to fetch prayer times from Diyanet''),
         \<lparr>cache = Missing, requests = 3\<rparr>)"
    using upstream_network_down [of sample_env ?w] by (simp add: sample_resolved sample_env_def)
  have s: "get_stale_cached_bundle sample_env (cache ?w) sample_location
      (resolve_prayer_source sample_location Diyanet) = Inr None"
    by (simp add: get_stale_cached_bundle_def safe_read_cache_def parse_absent)
  from stale_fallback [OF f u, THEN conjunct2, THEN conjunct1, THEN mp, OF s]
  show "fetch_prayer_bundle sample_env ?w sample_location Diyanet
   = (Inl (PrayerApiError ''Failed to fetch prayer times from Diyanet''),
      \<lparr>cache = Missing, requests = 3\<rparr>)" .
qed

section \<open>The prayer clock\<close>

lemma shape_cases:
  assumes "hhmm_shape s"
  obtains a b c d where "s = [a, b, CHR '':'', c, d]"
    "is_digit a" "is_digit b" "is_digit c" "is_digit d"
proof -
  from assms have l: "length s = 5" by (simp add: hhmm_shape_def)
  then obtain a b x c d where s: "s = [a, b, x, c, d]"
    by (auto simp: numeral_eq_Suc length_Suc_conv)
  with assms have "x = CHR '':''" "is_digit a" "is_digit b" "is_digit c" "is_digit d"
    by (simp_all add: hhmm_shape_def)
  with s show ?thesis by (intro that [of a b c d]) simp_all
qed

lemma digit_not_space: "is_digit a \<Longrightarrow> \<not> int_space a"
  by (auto simp: is_digit_cases int_space_def)

lemma digit_not_sign: "is_digit a \<Longrightarrow> a \<noteq> CHR ''-'' \<and> a \<noteq> CHR ''+'' \<and> a \<noteq> CHR '':''"
  by (auto simp: is_digit_cases)

lemma py_int_two_digits:
  assumes "is_digit a" "is_digit b"
  shows "py_int [a, b] = Some (int (nat_of_digits [a, b]))"
  using assms
  by (simp add: py_int_def digit_not_space digit_not_sign nat_of_digits_def)

lemma split_hhmm:
  assumes "is_digit a" "is_digit b" "is_digit c" "is_digit d"
  shows "split_on (CHR '':'') [a, b, CHR '':'', c, d] = [[a, b], [c, d]]"
  using assms by (simp add: digit_not_sign)

lemma replace_time_in_range:
  assumes "0 \<le> h" "h \<le> 23" "0 \<le> m" "m \<le> 59"
  shows "replace_time base h m = Inr (base - base mod DAY_US + (h * 60 + m) * 60000000)"
  using assms by (simp add: replace_time_def)

lemma time_string_shape:
  assumes "hhmm_shape s"
  shows "time_string_to_datetime s base
     = replace_time base (int (nat_of_digits (take 2 s))) (int (nat_of_digits (drop 3 s)))"
proof -
  from assms obtain a b c d where s: "s = [a, b, CHR '':'', c, d]"
    and dg: "is_digit a" "is_digit b" "is_digit c" "is_digit d"
    by (rule shape_cases)
  have "time_string_to_datetime s base
      = replace_time base (int (nat_of_digits [a, b])) (int (nat_of_digits [c, d]))"
    by (simp add: time_string_to_datetime_def s split_hhmm dg py_int_two_digits
        del: split_on.simps)
  then show ?thesis
    by (simp only: s take_Suc_Cons drop_Suc_Cons numeral_2_eq_2 numeral_3_eq_3 take_0 drop_0)
qed

lemma time_string_canonical:
  assumes "canonical_hhmm s"
  shows "time_string_to_datetime s base = Inr (at_date base s)"
proof -
  define h where "h = int (nat_of_digits (take 2 s))"
  define m where "m = int (nat_of_digits (drop 3 s))"
  from assms have r: "0 \<le> h" "h \<le> 23" "0 \<le> m" "m \<le> 59"
    by (simp_all add: canonical_hhmm_def h_def m_def)
  from assms have "hhmm_shape s" by (simp add: canonical_hhmm_def)
  then have "time_string_to_datetime s base = replace_time base h m"
    unfolding h_def m_def by (rule time_string_shape)
  also have "\<dots> = Inr (base - base mod DAY_US + (h * 60 + m) * 60000000)"
    using r by (rule replace_time_in_range)
  also have "\<dots> = Inr (at_date base s)"
    by (simp only: at_date_def h_def m_def DAY_US_def)
  finally show ?thesis .
qed

lemma countdown_ms_nonneg: "0 \<le> countdown_ms to_ms target now"
  by (simp add: countdown_ms_def)

lemma points_canonical:
  assumes "\<And>n. canonical_hhmm (get_time pt n)"
  shows "get_prayer_times_array pt now =
     Inr [\<lparr>p_name = P_Fajr, p_time = Fajr pt, p_timestamp = at_date now (Fajr pt)\<rparr>,
          \<lparr>p_name = P_Sunrise, p_time = Sunrise pt, p_timestamp = at_date now (Sunrise pt)\<rparr>,
          \<lparr>p_name = P_Dhuhr, p_time = Dhuhr pt, p_timestamp = at_date now (Dhuhr pt)\<rparr>,
          \<lparr>p_name = P_Asr, p_time = Asr pt, p_timestamp = at_date now (Asr pt)\<rparr>,
          \<lparr>p_name = P_Maghrib, p_time = Maghrib pt, p_timestamp = at_date now (Maghrib pt)\<rparr>,
          \<lparr>p_name = P_Isha, p_time = Isha pt, p_timestamp = at_date now (Isha pt)\<rparr>]"
proof -
  have "time_string_to_datetime (get_time pt n) now = Inr (at_date now (get_time pt n))" for n
    using assms by (rule time_string_canonical)
  from this [of P_Fajr] this [of P_Sunrise] this [of P_Dhuhr] this [of P_Asr]
    this [of P_Maghrib] this [of P_Isha]
  show ?thesis
    by (simp add: get_prayer_times_array_def PRAYER_NAMES_def)
qed

lemma chosen_canonical:
  assumes "canonical_hhmm (Fajr pt)" and "\<And>t. tf = Some t \<Longrightarrow> t \<noteq> [] \<Longrightarrow> canonical_hhmm t"
  shows "canonical_hhmm (chosen_tomorrow_fajr pt tf)"
  using assms by (cases tf) (auto simp: chosen_tomorrow_fajr_def)

lemma clock_result:
  assumes wf: "\<And>n. canonical_hhmm (get_time pt n)"
    and tfw: "\<And>t. tf = Some t \<Longrightarrow> t \<noteq> [] \<Longrightarrow> canonical_hhmm t"
  shows "get_current_prayer_info to_ms pt tf now = Inr
    (if at_date now (Isha pt) \<le> now then
       \<lparr>current_prayer = Some P_Isha, next_prayer = P_Fajr,
        next_prayer_time = chosen_tomorrow_fajr pt tf,
        time_until_next_ms =
          countdown_ms to_ms (at_date (now + DAY_US) (chosen_tomorrow_fajr pt tf)) now,
        is_after_isha = True\<rparr>
     else if at_date now (Maghrib pt) \<le> now then
       \<lparr>current_prayer = Some P_Maghrib, next_prayer = P_Isha, next_prayer_time = Isha pt,
        time_until_next_ms = countdown_ms to_ms (at_date now (Isha pt)) now,
        is_after_isha = False\<rparr>
     else if at_date now (Asr pt) \<le> now then
       \<lparr>current_prayer = Some P_Asr, next_prayer = P_Maghrib, next_prayer_time = Maghrib pt,
        time_until_next_ms = countdown_ms to_ms (at_date now (Maghrib pt)) now,
        is_after_isha = False\<rparr>
     else if at_date now (Dhuhr pt) \<le> now then
       \<lparr>current_prayer = Some P_Dhuhr, next_prayer = P_Asr, next_prayer_time = Asr pt,
        time_until_next_ms = countdown_ms to_ms (at_date now (Asr pt)) now,
        is_after_isha = False\<rparr>
     else if at_date now (Sunrise pt) \<le> now then
       \<lparr>current_prayer = Some P_Sunrise, next_prayer = P_Dhuhr, next_prayer_time = Dhuhr pt,
        time_until_next_ms = countdown_ms to_ms (at_date now (Dhuhr pt)) now,
        is_after_isha = False\<rparr>
     else if at_date now (Fajr pt) \<le> now then
       \<lparr>current_prayer = Some P_Fajr, next_prayer = P_Sunrise, next_prayer_time = Sunrise pt,
        time_until_next_ms = countdown_ms to_ms (at_date now (Sunrise pt)) now,
        is_after_isha = False\<rparr>
     else
       \<lparr>current_prayer = Some P_Isha, next_prayer = P_Fajr, next_prayer_time = Fajr pt,
        time_until_next_ms = countdown_ms to_ms (at_date now (Fajr pt)) now,
        is_after_isha = False\<rparr>)"
proof -
  have "canonical_hhmm (chosen_tomorrow_fajr pt tf)"
    using wf [of P_Fajr] tfw by (intro chosen_canonical) simp_all
  then have tom: "time_string_to_datetime (chosen_tomorrow_fajr pt tf) (now + DAY_US)
      = Inr (at_date (now + DAY_US) (chosen_tomorrow_fajr pt tf))"
    by (rule time_string_canonical)
  have c: "(case tf of None \<Rightarrow> Fajr pt | Some t \<Rightarrow> if t \<noteq> [] then t else Fajr pt)
      = chosen_tomorrow_fajr pt tf"
    by (simp add: chosen_tomorrow_fajr_def)
  show ?thesis
    unfolding get_current_prayer_info_def points_canonical [OF wf]
    by (simp add: Let_def c tom countdown_ms_def [symmetric])
qed

text \<open>
  C7, as amended. Take six well-formed prayer times, a tomorrow-Fajr that is absent, empty
  or well-formed, and any instant \<open>now\<close>. Then \<open>get_current_prayer_info\<close> returns, and
  the milliseconds until the next prayer are never negative. The current prayer is the
  latest in the fixed order whose timestamp today is at or before \<open>now\<close>; when that is
  not Isha, the next prayer is its successor, today. When \<open>now\<close> is at or past Isha,
  the next prayer is Fajr with \<open>is_after_isha\<close> set, its time is the supplied
  tomorrow-Fajr (today's Fajr string when none is supplied) and the countdown runs to that
  time on tomorrow's date. When \<open>now\<close> is before today's Fajr and none of the six times is
  earlier than Fajr, the current prayer is Isha and the next is today's Fajr.
\<close>

theorem current_prayer_info_correct:
  assumes wf: "\<And>n. canonical_hhmm (get_time pt n)"
    and tfw: "\<And>t. tf = Some t \<Longrightarrow> t \<noteq> [] \<Longrightarrow> canonical_hhmm t"
  shows "\<exists>info. get_current_prayer_info to_ms pt tf now = Inr info
     \<and> 0 \<le> time_until_next_ms info
     \<and> (\<forall>n. at_date now (get_time pt n) \<le> now
            \<and> (\<forall>n'. prayer_index n < prayer_index n' \<longrightarrow> now < at_date now (get_time pt n'))
          \<longrightarrow> current_prayer info = Some n
            \<and> (n \<noteq> P_Isha \<longrightarrow>
                 next_prayer info = successor n
                 \<and> next_prayer_time info = get_time pt (successor n)
                 \<and> \<not> is_after_isha info
                 \<and> time_until_next_ms info
                     = countdown_ms to_ms (at_date now (get_time pt (successor n))) now))
     \<and> (at_date now (Isha pt) \<le> now
          \<longrightarrow> current_prayer info = Some P_Isha \<and> next_prayer info = P_Fajr
            \<and> is_after_isha info
            \<and> next_prayer_time info = chosen_tomorrow_fajr pt tf
            \<and> time_until_next_ms info
                = countdown_ms to_ms (at_date (now + DAY_US) (chosen_tomorrow_fajr pt tf)) now)
     \<and> ((\<forall>n. at_date now (Fajr pt) \<le> at_date now (get_time pt n))
            \<and> now < at_date now (Fajr pt)
          \<longrightarrow> current_prayer info = Some P_Isha \<and> next_prayer info = P_Fajr
            \<and> next_prayer_time info = Fajr pt \<and> \<not> is_after_isha info
            \<and> time_until_next_ms info = countdown_ms to_ms (at_date now (Fajr pt)) now)"
proof -
  obtain info where r: "get_current_prayer_info to_ms pt tf now = Inr info"
    and info: "info =
    (if at_date now (Isha pt) \<le> now then
       \<lparr>current_prayer = Some P_Isha, next_prayer = P_Fajr,
        next_prayer_time = chosen_tomorrow_fajr pt tf,
        time_until_next_ms =
          countdown_ms to_ms (at_date (now + DAY_US) (chosen_tomorrow_fajr pt tf)) now,
        is_after_isha = True\<rparr>
     else if at_date now (Maghrib pt) \<le> now then
       \<lparr>current_prayer = Some P_Maghrib, next_prayer = P_Isha, next_prayer_time = Isha pt,
        time_until_next_ms = countdown_ms to_ms (at_date now (Isha pt)) now,
        is_after_isha = False\<rparr>
     else if at_date now (Asr pt) \<le> now then
       \<lparr>current_prayer = Some P_Asr, next_prayer = P_Maghrib, next_prayer_time = Maghrib pt,
        time_until_next_ms = countdown_ms to_ms (at_date now (Maghrib pt)) now,
        is_after_isha = False\<rparr>
     else if at_date now (Dhuhr pt) \<le> now then
       \<lparr>current_prayer = Some P_Dhuhr, next_prayer = P_Asr, next_prayer_time = Asr pt,
        time_until_next_ms = countdown_ms to_ms (at_date now (Asr pt)) now,
        is_after_isha = False\<rparr>
     else if at_date now (Sunrise pt) \<le> now then
       \<lparr>current_prayer = Some P_Sunrise, next_prayer = P_Dhuhr, next_prayer_time = Dhuhr pt,
        time_until_next_ms = countdown_ms to_ms (at_date now (Dhuhr pt)) now,
        is_after_isha = False\<rparr>
     else if at_date now (Fajr pt) \<le> now then
       \<lparr>current_prayer = Some P_Fajr, next_prayer = P_Sunrise, next_prayer_time = Sunrise pt,
        time_until_next_ms = countdown_ms to_ms (at_date now (Sunrise pt)) now,
        is_after_isha = False\<rparr>
     else
       \<lparr>current_prayer = Some P_Isha, next_prayer = P_Fajr, next_prayer_time = Fajr pt,
        time_until_next_ms = countdown_ms to_ms (at_date now (Fajr pt)) now,
        is_after_isha = False\<rparr>)"
    using clock_result [OF wf tfw] by blast
  have nonneg: "0 \<le> time_until_next_ms info"
    by (simp add: info countdown_ms_nonneg)
  have latest: "current_prayer info = Some n
            \<and> (n \<noteq> P_Isha \<longrightarrow>
                 next_prayer info = successor n
                 \<and> next_prayer_time info = get_time pt (successor n)
                 \<and> \<not> is_after_isha info
                 \<and> time_until_next_ms info
                     = countdown_ms to_ms (at_date now (get_time pt (successor n))) now)"
    if H: "at_date now (get_time pt n) \<le> now
            \<and> (\<forall>n'. prayer_index n < prayer_index n' \<longrightarrow> now < at_date now (get_time pt n'))"
    for n
  proof -
    from H have L: "prayer_index n < prayer_index n' \<Longrightarrow> now < at_date now (get_time pt n')"
      for n' by blast
    from H L [of P_Sunrise] L [of P_Dhuhr] L [of P_Asr] L [of P_Maghrib] L [of P_Isha]
    show ?thesis by (cases n) (simp_all add: info)
  qed
  have after: "current_prayer info = Some P_Isha \<and> next_prayer info = P_Fajr
            \<and> is_after_isha info
            \<and> next_prayer_time info = chosen_tomorrow_fajr pt tf
            \<and> time_until_next_ms info
                = countdown_ms to_ms (at_date (now + DAY_US) (chosen_tomorrow_fajr pt tf)) now"
    if "at_date now (Isha pt) \<le> now"
    using that by (simp add: info)
  have before: "current_prayer info = Some P_Isha \<and> next_prayer info = P_Fajr
            \<and> next_prayer_time info = Fajr pt \<and> \<not> is_after_isha info
            \<and> time_until_next_ms info = countdown_ms to_ms (at_date now (Fajr pt)) now"
    if H: "(\<forall>n. at_date now (Fajr pt) \<le> at_date now (get_time pt n))
            \<and> now < at_date now (Fajr pt)"
  proof -
    from H have E: "at_date now (Fajr pt) \<le> at_date now (get_time pt n)" for n by blast
    from H E [of P_Sunrise] E [of P_Dhuhr] E [of P_Asr] E [of P_Maghrib] E [of P_Isha]
    show ?thesis by (simp add: info)
  qed
  from r nonneg latest after before show ?thesis by blast
qed

lemma canonical_examples:
  "canonical_hhmm ''06:22''" "canonical_hhmm ''07:48''" "canonical_hhmm ''13:23''"
  "canonical_hhmm ''16:19''" "canonical_hhmm ''18:48''" "canonical_hhmm ''20:08''"
  "canonical_hhmm ''06:21''" "canonical_hhmm ''06:00''" "canonical_hhmm ''05:00''"
  "canonical_hhmm ''12:00''" "canonical_hhmm ''15:00''" "canonical_hhmm ''18:00''"
  "canonical_hhmm ''20:00''"
  by (simp_all add: canonical_hhmm_def hhmm_shape_def digit_chars nat_of_digits_def digit_val_def)

lemma sample_times_canonical: "canonical_hhmm (get_time sample_times n)"
  by (cases n) (simp_all add: sample_times_def canonical_examples)

lemma unordered_times_canonical: "canonical_hhmm (get_time unordered_times n)"
  by (cases n) (simp_all add: unordered_times_def canonical_examples)

lemma at_date_examples:
  "at_date 19800000000 ''06:00'' = 21600000000"
  "at_date 19800000000 ''05:00'' = 18000000000"
  "at_date 19800000000 ''12:00'' = 43200000000"
  "at_date 19800000000 ''15:00'' = 54000000000"
  "at_date 19800000000 ''18:00'' = 64800000000"
  "at_date 19800000000 ''20:00'' = 72000000000"
  "at_date 72480000000 ''20:08'' = 72480000000"
  "at_date 158880000000 ''06:21'' = 109260000000"
  by (simp_all add: at_date_def nat_of_digits_def digit_val_def)

lemma unordered_result:
  "get_current_prayer_info (\<lambda>us. us div 1000) unordered_times None 19800000000
   = Inr \<lparr>current_prayer = Some P_Sunrise, next_prayer = P_Dhuhr, next_prayer_time = ''12:00'',
          time_until_next_ms = 23400000, is_after_isha = False\<rparr>"
proof -
  from clock_result [where pt = unordered_times and tf = None
      and to_ms = "\<lambda>us. us div 1000" and now = 19800000000, OF unordered_times_canonical]
  show ?thesis
    by (simp add: unordered_times_def at_date_examples countdown_ms_def)
qed

lemma out_of_range_tomorrow:
  "get_current_prayer_info to_ms sample_times (Some ''29:75'') 72480000000 = Inl ValueError"
proof -
  have sh: "hhmm_shape ''29:75''" by (simp add: hhmm_shape_def digit_chars)
  have "time_string_to_datetime ''29:75'' (72480000000 + DAY_US) = Inl ValueError"
    unfolding time_string_shape [OF sh]
    by (simp add: replace_time_def nat_of_digits_def digit_val_def)
  then show ?thesis
    unfolding get_current_prayer_info_def points_canonical [OF sample_times_canonical]
    by (simp add: sample_times_def at_date_examples)
qed

text \<open>
  The claim as first stated fails twice. With a Sunrise string earlier than the Fajr
  string, at 05:30, before Fajr at 06:00, the current prayer is reported as Sunrise and
  the next as Dhuhr. And at Isha, 20:08, with the supplied tomorrow-Fajr \<open>29:75\<close> (which
  an adapter can return), the call raises \<open>ValueError\<close> instead of returning.
\<close>

theorem current_prayer_info_counterexample:
  "19800000000 < at_date 19800000000 (Fajr unordered_times)
   \<and> get_current_prayer_info (\<lambda>us. us div 1000) unordered_times None 19800000000
     = Inr \<lparr>current_prayer = Some P_Sunrise, next_prayer = P_Dhuhr, next_prayer_time = ''12:00'',
            time_until_next_ms = 23400000, is_after_isha = False\<rparr>
   \<and> at_date 72480000000 (Isha sample_times) \<le> 72480000000
   \<and> get_current_prayer_info (\<lambda>us. us div 1000) sample_times (Some ''29:75'') 72480000000
     = Inl ValueError"
  by (simp add: unordered_result out_of_range_tomorrow)
     (simp add: unordered_times_def sample_times_def at_date_examples)

theorem current_prayer_info_correct_witness:
  "\<exists>info. get_current_prayer_info (\<lambda>us. us div 1000) sample_times (Some ''06:21'') 72480000000
       = Inr info
     \<and> current_prayer info = Some P_Isha \<and> next_prayer info = P_Fajr \<and> is_after_isha info
     \<and> next_prayer_time info = ''06:21'' \<and> time_until_next_ms info = 36780000"
proof -
  have tf: "\<And>t. Some ''06:21'' = Some t \<Longrightarrow> t \<noteq> [] \<Longrightarrow> canonical_hhmm t"
    by (simp add: canonical_examples)
  have isha: "at_date 72480000000 (Isha sample_times) \<le> 72480000000"
    by (simp add: sample_times_def at_date_examples)
  from current_prayer_info_correct [OF sample_times_canonical tf,
      where to_ms = "\<lambda>us. us div 1000" and now = 72480000000]
  obtain info where
    r: "get_current_prayer_info (\<lambda>us. us div 1000) sample_times (Some ''06:21'') 72480000000
       = Inr info"
    and a: "at_date 72480000000 (Isha sample_times) \<le> 72480000000
          \<longrightarrow> current_prayer info = Some P_Isha \<and> next_prayer info = P_Fajr
            \<and> is_after_isha info
            \<and> next_prayer_time info = chosen_tomorrow_fajr sample_times (Some ''06:21'')
            \<and> time_until_next_ms info
                = countdown_ms (\<lambda>us. us div 1000)
                    (at_date (72480000000 + DAY_US)
                       (chosen_tomorrow_fajr sample_times (Some ''06:21''))) 72480000000"
    by blast
  from a isha have "current_prayer info = Some P_Isha" "next_prayer info = P_Fajr"
    "is_after_isha info" "next_prayer_time info = ''06:21''"
    "time_until_next_ms info = 36780000"
    by (simp_all add: chosen_tomorrow_fajr_def countdown_ms_def DAY_US_def at_date_examples)
  with r show ?thesis by blast
qed

end
